theory Spec2Isabelle
  imports Main "HOL-Library.Log_Nat" "HOL-Library.List_Lexorder"
begin

section \<open>JavaScript values used by githubAnalyzer.ts\<close>

subsection \<open>Strings\<close>

text \<open>
  A JavaScript string is a sequence of UTF-16 code units; \<open>length\<close>, indexing and
  regular expressions without the \<open>u\<close> flag all work on code units. A code unit is
  modelled as a natural number below 65536.
\<close>

type_synonym jsstring = "nat list"

definition str :: "string \<Rightarrow> jsstring" where
  "str s = map of_char s"

text \<open>The backslash, which cannot be written inside a string literal.\<close>

definition bs :: jsstring where
  "bs = [92]"

subsection \<open>Numbers\<close>

text \<open>
  A JavaScript number is an IEEE 754 double. The finite doubles are rationals, and every
  arithmetic operation returns the exact result rounded to the nearest double, ties to
  the even significand. \<open>rne\<close> is that rounding: the unit in the last place of \<open>x\<close>
  is \<open>2 ^ (e - 52)\<close> for the binary exponent \<open>e\<close> of \<open>x\<close> (not below \<open>-1022\<close>, where
  the subnormal numbers begin). NaN and the infinities are not numbers of this model:
  where the source can produce NaN (an unparsable date) the model says so with an
  option, and no quantity of the program comes near \<open>2 ^ 1024\<close>.
\<close>

definition pow2 :: "int \<Rightarrow> rat" where
  "pow2 e = (if 0 \<le> e then 2 ^ nat e else 1 / 2 ^ nat (- e))"

definition expo :: "rat \<Rightarrow> int" where
  "expo x = (let (p, q) = quotient_of \<bar>x\<bar>; d = bitlen p - bitlen q
             in if pow2 d \<le> \<bar>x\<bar> then d else d - 1)"

definition roundHalfEven :: "rat \<Rightarrow> int" where
  "roundHalfEven q =
     (let n = \<lfloor>q\<rfloor>; r = q - of_int n
      in if r < 1 / 2 then n else if 1 / 2 < r then n + 1 else if even n then n else n + 1)"

definition rne :: "rat \<Rightarrow> rat" where
  "rne x = (if x = 0 then 0
            else let u = pow2 (max (expo x) (- 1022) - 52)
                 in of_int (roundHalfEven (x / u)) * u)"

text \<open>A decimal literal of the source denotes the double nearest to it.\<close>

definition js_lit :: "rat \<Rightarrow> rat" where
  "js_lit q = rne q"

definition js_add :: "rat \<Rightarrow> rat \<Rightarrow> rat" where
  "js_add a b = rne (a + b)"

definition js_sub :: "rat \<Rightarrow> rat \<Rightarrow> rat" where
  "js_sub a b = rne (a - b)"

definition js_mul :: "rat \<Rightarrow> rat \<Rightarrow> rat" where
  "js_mul a b = rne (a * b)"

text \<open>Division; every divisor in the source is a non-zero constant or guarded by a test.\<close>

definition js_div :: "rat \<Rightarrow> rat \<Rightarrow> rat" where
  "js_div a b = rne (a / b)"

text \<open>A count (an array length, a loop counter) as a number.\<close>

definition js_num :: "nat \<Rightarrow> rat" where
  "js_num n = rne (of_nat n)"

text \<open>\<open>Math.round\<close>: the nearest integer, a tie going up. The result is exact.\<close>

definition Math_round :: "rat \<Rightarrow> rat" where
  "Math_round x = of_int \<lfloor>x + 1 / 2\<rfloor>"

subsection \<open>Regular expressions\<close>

text \<open>
  The fragment of JavaScript regular expressions that the source uses: character
  classes, sequence, alternation, \<open>?\<close>, \<open>*\<close> and \<open>+\<close> (in the source always applied to one
  character class), the assertions \<open>^\<close>, \<open>$\<close> (no pattern has the \<open>m\<close> flag, so they
  mean start and end of input) and \<open>\b\<close>, and capture groups.
\<close>

datatype regex =
    Cls "nat \<Rightarrow> bool"
  | Eps
  | Seq regex regex
  | Alt regex regex
  | Opt regex
  | StarC "nat \<Rightarrow> bool"
  | PlusC "nat \<Rightarrow> bool"
  | Bol
  | Eol
  | WordB
  | Grp regex

text \<open>
  A matcher state: the code unit just before the current position (\<open>None\<close> at the
  start of input), the input that remains, and the texts captured so far.
\<close>

type_synonym mstate = "nat option \<times> jsstring \<times> jsstring list"

text \<open>\<open>\w\<close>: the characters \<open>A-Z a-z 0-9 _\<close>.\<close>

definition isWordChar :: "nat \<Rightarrow> bool" where
  "isWordChar c = ((65 \<le> c \<and> c \<le> 90) \<or> (97 \<le> c \<and> c \<le> 122) \<or> (48 \<le> c \<and> c \<le> 57) \<or> c = 95)"

text \<open>\<open>.\<close>: any code unit but a line terminator (no pattern has the \<open>s\<close> flag).\<close>

definition dot :: "nat \<Rightarrow> bool" where
  "dot c = (c \<noteq> 10 \<and> c \<noteq> 13 \<and> c \<noteq> 0x2028 \<and> c \<noteq> 0x2029)"

text \<open>\<open>\s\<close>: white space and line terminators.\<close>

definition space :: "nat \<Rightarrow> bool" where
  "space c = ((9 \<le> c \<and> c \<le> 13) \<or> c = 32 \<or> c = 160 \<or> c = 0x1680 \<or> (0x2000 \<le> c \<and> c \<le> 0x200A)
     \<or> c = 0x2028 \<or> c = 0x2029 \<or> c = 0x202F \<or> c = 0x205F \<or> c = 0x3000 \<or> c = 0xFEFF)"

text \<open>All the states after zero or more code units of the class, the longest run first.\<close>

fun starC :: "(nat \<Rightarrow> bool) \<Rightarrow> mstate \<Rightarrow> mstate list" where
  "starC P (p, [], g) = [(p, [], g)]"
| "starC P (p, c # cs, g) = (if P c then starC P (Some c, cs, g) @ [(p, c # cs, g)] else [(p, c # cs, g)])"

text \<open>
  The states in which a match of the expression can end when it starts in the given
  state, in the order in which a backtracking matcher tries them.
\<close>

fun rmatch :: "regex \<Rightarrow> mstate \<Rightarrow> mstate list" where
  "rmatch (Cls P) (p, [], g) = []"
| "rmatch (Cls P) (p, c # cs, g) = (if P c then [(Some c, cs, g)] else [])"
| "rmatch Eps st = [st]"
| "rmatch (Seq a b) st = concat (map (rmatch b) (rmatch a st))"
| "rmatch (Alt a b) st = rmatch a st @ rmatch b st"
| "rmatch (Opt a) st = rmatch a st @ [st]"
| "rmatch (StarC P) st = starC P st"
| "rmatch (PlusC P) (p, [], g) = []"
| "rmatch (PlusC P) (p, c # cs, g) = (if P c then starC P (Some c, cs, g) else [])"
| "rmatch Bol (p, cs, g) = (if p = None then [(p, cs, g)] else [])"
| "rmatch Eol (p, cs, g) = (if cs = [] then [(p, cs, g)] else [])"
| "rmatch WordB (p, cs, g) =
     (let a = (case p of None \<Rightarrow> False | Some c \<Rightarrow> isWordChar c);
          b = (case cs of [] \<Rightarrow> False | c # _ \<Rightarrow> isWordChar c)
      in if a \<noteq> b then [(p, cs, g)] else [])"
| "rmatch (Grp a) (p, cs, g) =
     map (\<lambda>(p', cs', g'). (p', cs', g' @ [take (length cs - length cs') cs])) (rmatch a (p, cs, g))"

text \<open>
  \<open>RegExp.prototype.exec\<close> for a pattern without the \<open>g\<close> and \<open>y\<close> flags: the first
  start position, from the left, at which the pattern matches; the result is the matched
  text and the captures.
\<close>

fun search :: "regex \<Rightarrow> nat option \<Rightarrow> jsstring \<Rightarrow> (jsstring \<times> jsstring list) option" where
  "search r p [] =
     (case rmatch r (p, [], []) of [] \<Rightarrow> None | (p', cs', g') # _ \<Rightarrow> Some ([], g'))"
| "search r p (c # cs) =
     (case rmatch r (p, c # cs, []) of
        [] \<Rightarrow> search r (Some c) cs
      | (p', cs', g') # _ \<Rightarrow> Some (take (length (c # cs) - length cs') (c # cs), g'))"

definition regexExec :: "regex \<Rightarrow> jsstring \<Rightarrow> (jsstring \<times> jsstring list) option" where
  "regexExec r s = search r None s"

definition test :: "regex \<Rightarrow> jsstring \<Rightarrow> bool" where
  "test r s = (regexExec r s \<noteq> None)"

text \<open>Building blocks for writing the patterns of the source.\<close>

definition chr :: "char \<Rightarrow> regex" where
  "chr c = Cls (\<lambda>x. x = of_char c)"

text \<open>
  A pattern character under the \<open>i\<close> flag (without \<open>u\<close>): two code units match when
  their upper-case forms agree, and a code unit from 128 on never folds to one below 128,
  so an ASCII letter matches exactly its two ASCII forms and any other ASCII character
  only itself.
\<close>

definition ci :: "char \<Rightarrow> regex" where
  "ci c = Cls (\<lambda>x. let k = of_char c in
             x = k \<or> (97 \<le> k \<and> k \<le> 122 \<and> x + 32 = k) \<or> (65 \<le> k \<and> k \<le> 90 \<and> x = k + 32))"

definition seqs :: "regex list \<Rightarrow> regex" where
  "seqs rs = foldr Seq rs Eps"

fun alts :: "regex list \<Rightarrow> regex" where
  "alts [] = Cls (\<lambda>x. False)"
| "alts [r] = r"
| "alts (r # rs) = Alt r (alts rs)"

definition lit :: "string \<Rightarrow> regex" where
  "lit s = seqs (map chr s)"

definition liti :: "string \<Rightarrow> regex" where
  "liti s = seqs (map ci s)"

text \<open>
  With the \<open>u\<close> flag a pattern works on code points: a high surrogate followed by a low
  surrogate is one character.
\<close>

fun codePoints :: "jsstring \<Rightarrow> nat list" where
  "codePoints (h # l # cs) =
     (if 0xD800 \<le> h \<and> h \<le> 0xDBFF \<and> 0xDC00 \<le> l \<and> l \<le> 0xDFFF
      then ((h - 0xD800) * 0x400 + (l - 0xDC00) + 0x10000) # codePoints cs
      else h # codePoints (l # cs))"
| "codePoints cs = cs"

section \<open>The commit classifier\<close>

record classification =
  isAI :: bool
  confidence :: rat
  reasons :: "jsstring list"

text \<open>The class of \<open>invisibleChars\<close>: U+200B to U+200D, U+FEFF, U+2060, U+180E, U+2061 to U+2064.\<close>

definition invisible :: "nat \<Rightarrow> bool" where
  "invisible c = ((0x200B \<le> c \<and> c \<le> 0x200D) \<or> c = 0xFEFF \<or> c = 0x2060 \<or> c = 0x180E
     \<or> (0x2061 \<le> c \<and> c \<le> 0x2064))"

definition invisibleChars :: regex where
  "invisibleChars = Cls invisible"

text \<open>The emoji pattern, which has the \<open>u\<close> flag: an alternation of six ranges of code points.\<close>

definition emojiRegex :: regex where
  "emojiRegex = alts
     [Cls (\<lambda>c. 0x1F600 \<le> c \<and> c \<le> 0x1F64F),
      Cls (\<lambda>c. 0x1F300 \<le> c \<and> c \<le> 0x1F5FF),
      Cls (\<lambda>c. 0x1F680 \<le> c \<and> c \<le> 0x1F6FF),
      Cls (\<lambda>c. 0x1F1E0 \<le> c \<and> c \<le> 0x1F1FF),
      Cls (\<lambda>c. 0x2600 \<le> c \<and> c \<le> 0x26FF),
      Cls (\<lambda>c. 0x2700 \<le> c \<and> c \<le> 0x27BF)]"

text \<open>The ten patterns of \<open>aiPatterns\<close>, each with its \<open>source\<close> text; all have the \<open>i\<close> flag.\<close>

definition aiPatterns :: "(jsstring \<times> regex) list" where
  "aiPatterns =
    [(str ''^(feat|fix|docs|style|refactor|test|chore|ci|build|perf)('' @ bs @ str ''(.+'' @ bs
        @ str ''))?'' @ bs @ str '':'' @ bs @ str ''s.+$'',
      seqs [Bol,
            Grp (alts (map liti [''feat'', ''fix'', ''docs'', ''style'', ''refactor'', ''test'',
                                 ''chore'', ''ci'', ''build'', ''perf''])),
            Opt (Grp (seqs [chr CHR ''('', PlusC dot, chr CHR '')''])),
            chr CHR '':'', Cls space, PlusC dot, Eol]),
     (str ''^(add|update|implement|create|fix|remove|delete|improve)'' @ bs @ str ''s'',
      seqs [Bol,
            Grp (alts (map liti [''add'', ''update'', ''implement'', ''create'', ''fix'', ''remove'',
                                 ''delete'', ''improve''])),
            Cls space]),
     (str ''^(initial commit|first commit)$'',
      seqs [Bol, Grp (alts (map liti [''initial commit'', ''first commit''])), Eol]),
     (str ''update'' @ bs @ str ''s+(readme|documentation)'',
      seqs [liti ''update'', PlusC space, Grp (alts (map liti [''readme'', ''documentation'']))]),
     (str ''^(resolve|address)'' @ bs @ str ''s+issue'',
      seqs [Bol, Grp (alts (map liti [''resolve'', ''address''])), PlusC space, liti ''issue'']),
     (str ''minor'' @ bs @ str ''s+(changes|updates|fixes)'',
      seqs [liti ''minor'', PlusC space, Grp (alts (map liti [''changes'', ''updates'', ''fixes'']))]),
     (str ''code'' @ bs @ str ''s+(cleanup|optimization|refactoring)'',
      seqs [liti ''code'', PlusC space,
            Grp (alts (map liti [''cleanup'', ''optimization'', ''refactoring'']))]),
     (str ''improve'' @ bs @ str ''s+(performance|functionality|user'' @ bs @ str ''s+experience)'',
      seqs [liti ''improve'', PlusC space,
            Grp (alts [liti ''performance'', liti ''functionality'',
                       seqs [liti ''user'', PlusC space, liti ''experience'']])]),
     (str ''enhance'' @ bs @ str ''s+(feature|component|ui)'',
      seqs [liti ''enhance'', PlusC space, Grp (alts (map liti [''feature'', ''component'', ''ui'']))]),
     (str ''update'' @ bs @ str ''s+(dependencies|packages)'',
      seqs [liti ''update'', PlusC space, Grp (alts (map liti [''dependencies'', ''packages'']))])]"

text \<open>The three patterns of \<open>perfectGrammarIndicators\<close>; the first has no flag.\<close>

definition perfectGrammarIndicators :: "regex list" where
  "perfectGrammarIndicators =
    [seqs [Bol, Cls isWordChar, StarC (\<lambda>c. c \<noteq> 46 \<and> c \<noteq> 33 \<and> c \<noteq> 63),
           Cls (\<lambda>c. c = 46 \<or> c = 33 \<or> c = 63), Eol],
     seqs [WordB,
           Grp (alts (map liti [''implement'', ''establish'', ''utilize'', ''facilitate'', ''optimize''])),
           WordB],
     seqs [WordB,
           Grp (alts (map liti [''furthermore'', ''additionally'', ''moreover'', ''consequently''])),
           WordB]]"

text \<open>
  \<open>analyzeCommitMessage\<close>. The function is declared \<open>async\<close> but awaits nothing: it is a
  pure function of the message. The local variables \<open>confidence\<close> and \<open>reasons\<close> are
  threaded through the five checks in the order of the source.
\<close>

definition analyzeCommitMessage :: "jsstring \<Rightarrow> classification" where
  "analyzeCommitMessage message =
    (if test invisibleChars message
     then \<lparr>isAI = True, confidence = 1, reasons = [str ''Contains invisible Unicode characters'']\<rparr>
     else
       let reasons1 = (if test emojiRegex (codePoints message) then [str ''Contains emojis''] else []);
           confidence1 = (if test emojiRegex (codePoints message) then max 0 (js_lit (9 / 10)) else 0);
           matched = filter (\<lambda>pattern. test (snd pattern) message) aiPatterns;
           patternMatches = length matched;
           reasons2 = reasons1 @ map (\<lambda>pattern. str ''Matches AI pattern: '' @ fst pattern) matched;
           confidence2 =
             (if patternMatches > 0
              then max confidence1
                     (min (js_lit (8 / 10))
                          (js_add (js_lit (3 / 10)) (js_mul (js_num patternMatches) (js_lit (15 / 100)))))
              else confidence1);
           reasons3 = (if length message > 100
                       then reasons2 @ [str ''Unusually long commit message''] else reasons2);
           confidence3 = (if length message > 100 then max confidence2 (js_lit (6 / 10)) else confidence2);
           grammarScore = length (filter (\<lambda>indicator. test indicator message) perfectGrammarIndicators);
           reasons4 = reasons3 @ replicate grammarScore (str ''Perfect grammar/formal language'');
           confidence4 =
             (if grammarScore > 0
              then max confidence3 (js_add (js_lit (1 / 2)) (js_mul (js_num grammarScore) (js_lit (1 / 10))))
              else confidence3)
       in \<lparr>isAI = (confidence4 > js_lit (1 / 2)), confidence = confidence4, reasons = reasons4\<rparr>)"

text \<open>
  The candidates of the specification's description of the classifier, one for each
  signal that triggers: the invisible-character signal alone when it triggers, otherwise
  the emoji, structural-pattern, length and grammar signals.
\<close>

definition triggeredCandidates :: "jsstring \<Rightarrow> rat list" where
  "triggeredCandidates message =
    (if list_ex invisible message then [1]
     else
       let m = length (filter (\<lambda>pattern. test (snd pattern) message) aiPatterns);
           g = length (filter (\<lambda>indicator. test indicator message) perfectGrammarIndicators)
       in (if test emojiRegex (codePoints message) then [js_lit (9 / 10)] else [])
        @ (if 0 < m then [min (js_lit (8 / 10)) (js_add (js_lit (3 / 10)) (js_mul (js_num m) (js_lit (15 / 100))))]
           else [])
        @ (if 100 < length message then [js_lit (6 / 10)] else [])
        @ (if 0 < g then [js_add (js_lit (1 / 2)) (js_mul (js_num g) (js_lit (1 / 10)))] else []))"

section \<open>Commit history\<close>

subsection \<open>Data\<close>

text \<open>The \<open>author\<close> and \<open>committer\<close> objects of a commit.\<close>

record GitUser =
  name :: jsstring
  email :: jsstring
  date :: jsstring

text \<open>
  The \<open>stats\<close> object of a commit. The GitHub API reports line counts: natural numbers,
  far below \<open>2 ^ 53\<close>, so that sums of them are exact in double arithmetic.
\<close>

record Stats =
  additions :: nat
  deletions :: nat
  total :: nat

record CommitInfo =
  ci_message :: jsstring
  ci_author :: GitUser
  ci_committer :: GitUser

record GitHubCommit =
  gh_sha :: jsstring
  commit :: CommitInfo
  html_url :: jsstring
  gh_stats :: "Stats option"

text \<open>\<open>CommitAnalysis\<close>: the fields \<open>isAI\<close>, \<open>confidence\<close> and \<open>reasons\<close> of the
  classification together with the commit's own data.\<close>

record CommitAnalysis = classification +
  sha :: jsstring
  message :: jsstring
  author :: GitUser
  committer :: GitUser
  stats :: Stats
  url :: jsstring

record ContributorStats =
  c_name :: jsstring
  c_email :: jsstring
  totalCommits :: nat
  totalAdditions :: nat
  totalDeletions :: nat
  estimatedHours :: rat
  aiCommitPercentage :: rat
  firstCommit :: jsstring
  lastCommit :: jsstring
  commitDays :: "jsstring list"

record TimelineStats =
  t_date :: jsstring
  t_commits :: nat
  t_additions :: nat
  t_deletions :: nat
  t_aiCommits :: nat
  t_estimatedHours :: rat
  t_contributors :: "jsstring list"

record CommitHistory =
  h_totalCommits :: nat
  h_commits :: "CommitAnalysis list"
  h_contributors :: "ContributorStats list"
  h_timeline :: "TimelineStats list"
  h_totalEstimatedHours :: rat
  h_aiCommitPercentage :: rat
  projectStartDate :: jsstring
  projectEndDate :: jsstring

subsection \<open>Dates and sorting\<close>

text \<open>
  \<open>new Date(s).getTime()\<close> is a function of the platform, a parameter \<open>getTime\<close> of
  the model: the time value in milliseconds, or \<open>None\<close> for a string that does not
  parse (the time value NaN). Arithmetic with NaN gives NaN and every comparison with
  NaN is false.
\<close>

type_synonym dateparser = "jsstring \<Rightarrow> int option"

definition nan_sub :: "int option \<Rightarrow> int option \<Rightarrow> rat option" where
  "nan_sub a b = (case (a, b) of (Some x, Some y) \<Rightarrow> Some (js_sub (of_int x) (of_int y)) | _ \<Rightarrow> None)"

text \<open>\<open>new Date(a) < new Date(b)\<close>\<close>

definition dateLess :: "dateparser \<Rightarrow> jsstring \<Rightarrow> jsstring \<Rightarrow> bool" where
  "dateLess getTime a b = (case (getTime a, getTime b) of (Some x, Some y) \<Rightarrow> x < y | _ \<Rightarrow> False)"

text \<open>
  \<open>Array.prototype.sort\<close> with a comparison function is stable: \<open>a\<close> is moved behind
  \<open>b\<close> only when the comparison of \<open>a\<close> with \<open>b\<close> is positive (a NaN counts as zero).
  \<open>gt a b\<close> says that it is positive. For a comparison function that is a consistent
  ordering the result is the one of this insertion sort; for any other the language
  leaves the order to the implementation, and the model fixes this one.
\<close>

fun insertBy :: "('a \<Rightarrow> 'a \<Rightarrow> bool) \<Rightarrow> 'a \<Rightarrow> 'a list \<Rightarrow> 'a list" where
  "insertBy gt x [] = [x]"
| "insertBy gt x (y # ys) = (if gt x y then y # insertBy gt x ys else x # y # ys)"

definition sortBy :: "('a \<Rightarrow> 'a \<Rightarrow> bool) \<Rightarrow> 'a list \<Rightarrow> 'a list" where
  "sortBy gt xs = foldr (insertBy gt) xs []"

text \<open>\<open>(a, b) => time(a) - time(b)\<close> is positive.\<close>

definition timeAfter :: "dateparser \<Rightarrow> jsstring \<Rightarrow> jsstring \<Rightarrow> bool" where
  "timeAfter getTime a b = (case nan_sub (getTime a) (getTime b) of Some d \<Rightarrow> 0 < d | None \<Rightarrow> False)"

subsection \<open>The work-hour estimator\<close>

text \<open>
  The loop of \<open>estimateWorkHours\<close> over the sorted commits; its state is \<open>totalHours\<close> and
  \<open>lastCommitTime\<close> (\<open>None\<close> for \<open>null\<close>; a \<open>Date\<close> object is truthy also when its time
  value is NaN).
\<close>

definition workStep :: "dateparser \<Rightarrow> rat \<Rightarrow> rat \<times> int option option \<Rightarrow> CommitAnalysis
    \<Rightarrow> rat \<times> int option option" where
  "workStep getTime timeWindow st c =
    (let totalHours = fst st;
         lastCommitTime = snd st;
         commitTime = getTime (date (author c));
         totalHours1 =
           (case lastCommitTime of
              Some lastTime \<Rightarrow>
                (case nan_sub commitTime lastTime of
                   Some d \<Rightarrow>
                     (let timeDiff = js_div d (1000 * 60 * 60)
                      in if timeDiff \<le> timeWindow then js_add totalHours timeDiff
                         else js_add totalHours (js_lit (1 / 2)))
                 | None \<Rightarrow> js_add totalHours (js_lit (1 / 2)))
            | None \<Rightarrow> js_add totalHours (js_lit (1 / 2)));
         commitComplexity = min (js_div (js_num (total (stats c))) 10) 2
     in (js_add totalHours1 commitComplexity, Some commitTime))"

definition estimateWorkHours :: "dateparser \<Rightarrow> CommitAnalysis list \<Rightarrow> rat \<Rightarrow> rat" where
  "estimateWorkHours getTime commits timeWindow =
    (if length commits = 0 then 0
     else
       let sortedCommits = sortBy (\<lambda>a b. timeAfter getTime (date (author a)) (date (author b))) commits;
           totalHours = fst (foldl (workStep getTime timeWindow) (0, None) sortedCommits)
       in js_div (Math_round (js_mul totalHours 10)) 10)"

subsection \<open>Aggregation\<close>

text \<open>\<open>s.split('T')[0]\<close>: the text before the first \<open>T\<close>.\<close>

definition dayOf :: "jsstring \<Rightarrow> jsstring" where
  "dayOf s = takeWhile (\<lambda>c. c \<noteq> 84) s"

text \<open>The key of the contributor map, \<open>`${name}-${email}`\<close>.\<close>

definition contributorKey :: "CommitAnalysis \<Rightarrow> jsstring" where
  "contributorKey c = name (author c) @ str ''-'' @ email (author c)"

text \<open>
  A \<open>Map\<close> keeps its entries in the order of first insertion: a list of pairs with
  distinct keys. The source changes the object stored under a key in place.
\<close>

definition mapHas :: "('k \<times> 'v) list \<Rightarrow> 'k \<Rightarrow> bool" where
  "mapHas m k = (map_of m k \<noteq> None)"

definition mapEntry :: "'k \<Rightarrow> ('v \<Rightarrow> 'v) \<Rightarrow> ('k \<times> 'v) list \<Rightarrow> ('k \<times> 'v) list" where
  "mapEntry k f m = map (\<lambda>(k', v). if k' = k then (k', f v) else (k', v)) m"

text \<open>One round of the loop that builds \<open>contributorMap\<close>.\<close>

definition contributorStep :: "dateparser \<Rightarrow> (jsstring \<times> ContributorStats) list \<Rightarrow> CommitAnalysis
    \<Rightarrow> (jsstring \<times> ContributorStats) list" where
  "contributorStep getTime contributorMap c =
    (let key = contributorKey c;
         contributorMap1 =
           (if \<not> mapHas contributorMap key
            then contributorMap @
                 [(key, \<lparr>c_name = name (author c), c_email = email (author c), totalCommits = 0,
                         totalAdditions = 0, totalDeletions = 0, estimatedHours = 0,
                         aiCommitPercentage = 0, firstCommit = date (author c),
                         lastCommit = date (author c), commitDays = []\<rparr>)]
            else contributorMap)
     in mapEntry key
          (\<lambda>s. let s1 = s\<lparr>totalCommits := totalCommits s + 1,
                            totalAdditions := totalAdditions s + additions (stats c),
                            totalDeletions := totalDeletions s + deletions (stats c)\<rparr>;
                     commitDate = dayOf (date (author c));
                     s2 = (if commitDate \<notin> set (commitDays s1)
                           then s1\<lparr>commitDays := commitDays s1 @ [commitDate]\<rparr> else s1);
                     s3 = (if dateLess getTime (date (author c)) (firstCommit s2)
                           then s2\<lparr>firstCommit := date (author c)\<rparr> else s2)
                 in if dateLess getTime (lastCommit s3) (date (author c))
                    then s3\<lparr>lastCommit := date (author c)\<rparr> else s3)
          contributorMap1)"

text \<open>The second loop: hours and AI percentage of each contributor, from the commits under its key.\<close>

definition contributorFinish :: "dateparser \<Rightarrow> CommitAnalysis list \<Rightarrow> jsstring \<times> ContributorStats
    \<Rightarrow> jsstring \<times> ContributorStats" where
  "contributorFinish getTime commits entry =
    (let key = fst entry;
         s = snd entry;
         contributorCommits = filter (\<lambda>c. contributorKey c = key) commits;
         aiCommits = length (filter isAI contributorCommits)
     in (key, s\<lparr>estimatedHours := estimateWorkHours getTime contributorCommits 4,
                 aiCommitPercentage :=
                   (if totalCommits s > 0
                    then js_mul (js_div (js_num aiCommits) (js_num (totalCommits s))) 100 else 0)\<rparr>))"

text \<open>One round of the loop that builds \<open>timelineMap\<close>.\<close>

definition timelineStep :: "(jsstring \<times> TimelineStats) list \<Rightarrow> CommitAnalysis
    \<Rightarrow> (jsstring \<times> TimelineStats) list" where
  "timelineStep timelineMap c =
    (let d = dayOf (date (author c));
         timelineMap1 =
           (if \<not> mapHas timelineMap d
            then timelineMap @
                 [(d, \<lparr>t_date = d, t_commits = 0, t_additions = 0, t_deletions = 0, t_aiCommits = 0,
                       t_estimatedHours = 0, t_contributors = []\<rparr>)]
            else timelineMap)
     in mapEntry d
          (\<lambda>t. let t1 = t\<lparr>t_commits := t_commits t + 1,
                            t_additions := t_additions t + additions (stats c),
                            t_deletions := t_deletions t + deletions (stats c)\<rparr>;
                     t2 = (if isAI c then t1\<lparr>t_aiCommits := t_aiCommits t1 + 1\<rparr> else t1)
                 in if name (author c) \<notin> set (t_contributors t2)
                    then t2\<lparr>t_contributors := t_contributors t2 @ [name (author c)]\<rparr> else t2)
          timelineMap1)"

definition timelineFinish :: "dateparser \<Rightarrow> CommitAnalysis list \<Rightarrow> jsstring \<times> TimelineStats
    \<Rightarrow> jsstring \<times> TimelineStats" where
  "timelineFinish getTime commits entry =
    (let d = fst entry;
         dayCommits = filter (\<lambda>c. dayOf (date (author c)) = d) commits
     in (d, (snd entry)\<lparr>t_estimatedHours := estimateWorkHours getTime dayCommits 4\<rparr>))"

text \<open>The first loop of \<open>analyzeCommitHistory\<close>: every fetched commit with its classification.\<close>

definition classifyCommit :: "GitHubCommit \<Rightarrow> CommitAnalysis" where
  "classifyCommit githubCommit =
    (let analysis = analyzeCommitMessage (ci_message (commit githubCommit))
     in \<lparr>isAI = isAI analysis, confidence = confidence analysis, reasons = reasons analysis,
         sha = gh_sha githubCommit,
         message = ci_message (commit githubCommit),
         author = ci_author (commit githubCommit),
         committer = ci_committer (commit githubCommit),
         stats = (case gh_stats githubCommit of Some s \<Rightarrow> s
                  | None \<Rightarrow> \<lparr>additions = 0, deletions = 0, total = 0\<rparr>),
         url = html_url githubCommit\<rparr>)"

text \<open>
  \<open>analyzeCommitHistory\<close> after its first line, the fetch of the commits: a pure function
  of the fetched commits.
\<close>

definition summarizeCommits :: "dateparser \<Rightarrow> GitHubCommit list \<Rightarrow> CommitHistory" where
  "summarizeCommits getTime githubCommits =
    (if length githubCommits = 0
     then \<lparr>h_totalCommits = 0, h_commits = [], h_contributors = [], h_timeline = [],
           h_totalEstimatedHours = 0, h_aiCommitPercentage = 0, projectStartDate = [],
           projectEndDate = []\<rparr>
     else
       let commits = map classifyCommit githubCommits;
           contributorMap = map (contributorFinish getTime commits)
                              (foldl (contributorStep getTime) [] commits);
           timelineMap = map (timelineFinish getTime commits) (foldl timelineStep [] commits);
           contributors = sortBy (\<lambda>a b. js_sub (of_nat (totalCommits b)) (of_nat (totalCommits a)) > 0)
                            (map snd contributorMap);
           timeline = sortBy (\<lambda>a b. timeAfter getTime (t_date a) (t_date b)) (map snd timelineMap);
           totalEstimatedHours = foldl (\<lambda>sum c. js_add sum (estimatedHours c)) 0 contributors;
           aiCommits = length (filter isAI commits);
           aiCommitPercentage =
             (if length commits > 0
              then js_mul (js_div (js_num aiCommits) (js_num (length commits))) 100 else 0);
           sortedDates = sort (map (\<lambda>c. date (author c)) commits)
       in \<lparr>h_totalCommits = length commits,
           h_commits = sortBy (\<lambda>a b. timeAfter getTime (date (author b)) (date (author a))) commits,
           h_contributors = contributors,
           h_timeline = timeline,
           h_totalEstimatedHours = totalEstimatedHours,
           h_aiCommitPercentage = aiCommitPercentage,
           projectStartDate = (case sortedDates of [] \<Rightarrow> [] | d # _ \<Rightarrow> d),
           projectEndDate = (if sortedDates = [] then [] else last sortedDates)\<rparr>)"

section \<open>Repository files\<close>

subsection \<open>String operations\<close>

text \<open>\<open>s.startsWith(t)\<close> and \<open>s.includes(t)\<close>.\<close>

definition startsWith :: "jsstring \<Rightarrow> jsstring \<Rightarrow> bool" where
  "startsWith s t = (take (length t) s = t)"

fun includesStr :: "jsstring \<Rightarrow> jsstring \<Rightarrow> bool" where
  "includesStr [] t = (t = [])"
| "includesStr (c # cs) t = (startsWith (c # cs) t \<or> includesStr cs t)"

text \<open>
  \<open>s.toLowerCase()\<close> on the letters \<open>A-Z\<close>. The other code units are left as they are:
  Unicode case mapping outside ASCII is not modelled. No character outside ASCII has a
  lower-case form that occurs in \<open>lovable\<close>; for the extension of a path the model
  differs from the platform where the extension holds such a character (the Kelvin sign
  U+212A, whose lower-case form is \<open>k\<close>).
\<close>

definition toLowerCase :: "jsstring \<Rightarrow> jsstring" where
  "toLowerCase s = map (\<lambda>c. if 65 \<le> c \<and> c \<le> 90 then c + 32 else c) s"

text \<open>
  \<open>String(n)\<close> for a natural number \<open>n\<close>: its decimal digits (JavaScript changes to
  exponent notation from \<open>10 ^ 21\<close> on, far above every size and page number).
\<close>

fun numberToString :: "nat \<Rightarrow> jsstring" where
  "numberToString n = (if n < 10 then [48 + n] else numberToString (n div 10) @ [48 + n mod 10])"

declare numberToString.simps [simp del]

text \<open>A value used as a condition: \<open>undefined\<close>, \<open>null\<close> and the empty string are false.\<close>

definition truthy :: "jsstring option \<Rightarrow> bool" where
  "truthy u = (case u of None \<Rightarrow> False | Some s \<Rightarrow> s \<noteq> [])"

subsection \<open>Data\<close>

text \<open>
  The \<open>type\<close> of an entry of a directory listing. The interface declares \<open>file\<close> and
  \<open>dir\<close>; the GitHub API has further kinds (symbolic links, submodules), which the code
  neither collects nor descends into.
\<close>

datatype ftype = TFile | TDir | TOther

record GitHubFile =
  f_name :: jsstring
  path :: jsstring
  ftype :: ftype
  download_url :: "jsstring option"
  fsize :: nat
  branch :: "jsstring option"

record GitHubBranch =
  b_name :: jsstring
  b_sha :: jsstring

record RepoParent =
  full_name :: jsstring
  parent_html_url :: jsstring

record GitHubRepo =
  fork :: bool
  parent :: "RepoParent option"

subsection \<open>Which files are analyzed\<close>

definition LANGUAGE_MAP :: "(jsstring \<times> jsstring) list" where
  "LANGUAGE_MAP = map (\<lambda>(e, l). (str e, str l))
    [(''.js'', ''javascript''), (''.jsx'', ''jsx''), (''.ts'', ''typescript''), (''.tsx'', ''tsx''),
     (''.py'', ''python''), (''.java'', ''java''), (''.cpp'', ''cpp''), (''.cc'', ''cpp''),
     (''.cxx'', ''cpp''), (''.c++'', ''cpp''), (''.cs'', ''csharp''), (''.go'', ''go''),
     (''.rs'', ''rust''), (''.php'', ''php''), (''.rb'', ''ruby''), (''.swift'', ''swift''),
     (''.kt'', ''kotlin''), (''.scala'', ''scala''), (''.sh'', ''bash''), (''.sql'', ''sql''),
     (''.html'', ''html''), (''.css'', ''css''), (''.scss'', ''scss''), (''.sass'', ''sass''),
     (''.json'', ''json''), (''.yaml'', ''yaml''), (''.yml'', ''yaml''), (''.xml'', ''xml''),
     (''.md'', ''markdown'')]"

text \<open>\<open>filePath.toLowerCase().match(/\.[^.]*$/)?.[0]\<close>: the extension, from the last dot on.\<close>

definition extension :: "jsstring \<Rightarrow> jsstring option" where
  "extension filePath =
     map_option fst (regexExec (seqs [chr CHR ''.'', StarC (\<lambda>c. c \<noteq> 46), Eol]) (toLowerCase filePath))"

definition getLanguageFromPath :: "jsstring \<Rightarrow> jsstring" where
  "getLanguageFromPath filePath =
    (case extension filePath of
       None \<Rightarrow> str ''text''
     | Some ext \<Rightarrow> (case map_of LANGUAGE_MAP ext of None \<Rightarrow> str ''text'' | Some l \<Rightarrow> l))"

definition textExtensions :: "jsstring list" where
  "textExtensions = map str
    [''.js'', ''.jsx'', ''.ts'', ''.tsx'', ''.py'', ''.java'', ''.cpp'', ''.cc'', ''.cxx'', ''.c++'',
     ''.cs'', ''.go'', ''.rs'', ''.php'', ''.rb'', ''.swift'', ''.kt'', ''.scala'', ''.vue'', ''.svelte'',
     ''.html'', ''.css'', ''.scss'', ''.sass'', ''.md'', ''.mdx'', ''.txt'', ''.json'', ''.yaml'', ''.yml'',
     ''.xml'', ''.sh'', ''.bash'', ''.zsh'', ''.fish'', ''.ps1'', ''.bat'', ''.cmd'', ''.sql'', ''.r'',
     ''.dart'', ''.lua'', ''.perl'', ''.pl'', ''.clj'', ''.cljs'', ''.elm'', ''.ex'', ''.exs'', ''.fs'',
     ''.fsx'', ''.fsi'', ''.ml'', ''.mli'', ''.hs'', ''.lhs'', ''.jl'', ''.nim'', ''.cr'', ''.d'', ''.pas'',
     ''.pp'', ''.dpr'', ''.dfm'', ''.inc'', ''.asm'', ''.s'', ''.S'', ''.dockerfile'', ''.cmake'',
     ''.mk'', ''.makefile'', ''.gradle'', ''.sbt'', ''.pom'', ''.csproj'', ''.fsproj'', ''.vbproj'',
     ''.vcxproj'', ''.pbxproj'', ''.xcconfig'', ''.plist'', ''.ini'', ''.cfg'', ''.conf'', ''.config'',
     ''.toml'', ''.lock'', ''.env'', ''.gitignore'', ''.gitattributes'', ''.editorconfig'']"

text \<open>\<open>(js|ts|jsx|tsx)\<close>, \<open>/\/(main|index)\.(js|ts|jsx|tsx)$/\<close> and \<open>/App\.(js|ts|jsx|tsx)$/\<close>.\<close>

definition scriptExt :: regex where
  "scriptExt = Grp (alts (map lit [''js'', ''ts'', ''jsx'', ''tsx'']))"

definition mainOrIndex :: regex where
  "mainOrIndex = seqs [chr CHR ''/'', Grp (alts [lit ''main'', lit ''index'']), chr CHR ''.'', scriptExt, Eol]"

definition appFile :: regex where
  "appFile = seqs [lit ''App.'', scriptExt, Eol]"

text \<open>The patterns of \<open>excludePatterns\<close>, in the order of the source.\<close>

definition excludePatterns :: "regex list" where
  "excludePatterns =
    [lit ''/components/ui/'', lit ''/ui/'', lit ''.shadcn/'',
     lit ''node_modules/'', lit ''dist/'', lit ''build/'', lit ''.next/'', lit ''.nuxt/'', lit ''coverage/'',
     lit ''.generated.'', lit ''.gen.'', seqs [lit ''.d.ts'', Eol], seqs [lit ''types.ts'', Eol],
     seqs [lit ''index.d.ts'', Eol],
     lit ''tailwind.config.'', lit ''vite.config.'', lit ''webpack.config.'', lit ''next.config.'',
     lit ''nuxt.config.'', lit ''rollup.config.'', lit ''babel.config.'', lit ''jest.config.'',
     lit ''vitest.config.'', lit ''postcss.config.'', lit ''eslint.config.'', lit ''prettier.config.'',
     seqs [lit ''package.json'', Eol], seqs [lit ''package-lock.json'', Eol], seqs [lit ''yarn.lock'', Eol],
     seqs [lit ''pnpm-lock.yaml'', Eol], seqs [lit ''bun.lockb'', Eol],
     mainOrIndex, appFile,
     seqs [chr CHR ''.'', Grp (alts [lit ''test'', lit ''spec'']), chr CHR ''.'', scriptExt, Eol],
     lit ''__tests__/'', lit ''.test/'',
     lit ''/.'', lit ''.git/'', lit ''.vscode/'', lit ''.idea/'']"

definition shouldAnalyzeFile :: "jsstring \<Rightarrow> bool" where
  "shouldAnalyzeFile filePath =
    (if includesStr filePath (str ''node_modules/'') then False
     else case extension filePath of
       None \<Rightarrow> False
     | Some ext \<Rightarrow>
         if ext \<notin> set textExtensions then False
         else if list_ex (\<lambda>pattern. test pattern filePath) excludePatterns then False
         else if includesStr filePath (str ''src/'') \<and> (test mainOrIndex filePath \<or> test appFile filePath)
         then False
         else True)"

definition skipPatterns :: "jsstring list" where
  "skipPatterns = map str
    [''node_modules'', ''dist'', ''build'', ''.next'', ''.nuxt'', ''coverage'', ''.nyc_output'', ''public'',
     ''static'', ''assets'', ''components/ui'', ''.generated'', ''.gen'', ''.git'', ''.svn'', ''.hg'',
     ''.vscode'', ''.idea'', ''.vs'', ''.husky'', ''.github'', ''.gitlab'', ''tmp'', ''temp'', ''.cache'',
     ''.temp'']"

definition shouldSkipDirectory :: "jsstring \<Rightarrow> jsstring \<Rightarrow> bool" where
  "shouldSkipDirectory dirPath dirName =
    (if dirName \<in> set skipPatterns then True
     else if includesStr dirPath (str ''/node_modules/'') \<or> includesStr dirPath (str ''/components/ui/'')
           \<or> includesStr dirPath (str ''/.'') \<or> includesStr dirPath (str ''/dist/'')
           \<or> includesStr dirPath (str ''/build/'')
     then True
     else False)"

section \<open>The GitHub API\<close>

text \<open>
  A call of \<open>fetch\<close> either is rejected (no response: a network failure) or gives a
  response with a status; the body of a response is read by \<open>json()\<close> or \<open>text()\<close>,
  which can fail (\<open>None\<close>). The bodies are typed as the interfaces of the source declare
  them. The network is a parameter: for each kind of request a function from the URL and
  the state of the outside world to the outcome and the next state, so that the same
  request may succeed at one time and fail at another.
\<close>

datatype 'a response = Rejected | Response nat "'a option"

text \<open>\<open>response.ok\<close>\<close>

definition ok :: "nat \<Rightarrow> bool" where
  "ok status = (200 \<le> status \<and> status \<le> 299)"

text \<open>The body of a contents request: an array for a directory, one object for a file.\<close>

datatype contents = Listing "GitHubFile list" | Single GitHubFile

text \<open>
  The exceptions of the source: the invalid URL, \<open>GitHub API error: status\<close>, a rejected
  request or unreadable body, \<open>Failed to fetch file: status\<close>, no analyzeable files, and a
  failure of the external classifier.
\<close>

datatype error = InvalidUrl | ApiError nat | FetchFailed | FileError nat | NoAnalyzeableFiles
  | ClassifierFailed

text \<open>
  Modelled from the spec: the types \<open>AnalysisResult\<close> and \<open>LineAnalysis\<close> of the module
  \<open>aiDetection\<close>, which is not among the sources (the result of the external line
  classifier, with a flag and a list of reason strings for each line); the fields are
  those that \<open>githubAnalyzer.ts\<close> reads.
\<close>

record LineAnalysis =
  l_isAI :: bool
  l_reasons :: "jsstring list"

record AnalysisResult =
  totalLines :: nat
  aiLines :: nat
  humanLines :: nat
  overallConfidence :: rat
  aiPercentage :: rat
  lineAnalysis :: "LineAnalysis list"

text \<open>
  Everything outside the program: the six kinds of request, the external classifier
  \<open>analyzeCode\<close> (it may fail and may use the network), and the two functions of the
  platform, the time value of a date string and \<open>localeCompare\<close>.
\<close>

record 'w env =
  fetchContents :: "jsstring \<Rightarrow> 'w \<Rightarrow> contents response \<times> 'w"
  fetchRepo :: "jsstring \<Rightarrow> 'w \<Rightarrow> GitHubRepo response \<times> 'w"
  fetchBranches :: "jsstring \<Rightarrow> 'w \<Rightarrow> GitHubBranch list response \<times> 'w"
  fetchText :: "jsstring \<Rightarrow> 'w \<Rightarrow> jsstring response \<times> 'w"
  fetchCommitList :: "jsstring \<Rightarrow> 'w \<Rightarrow> GitHubCommit list response \<times> 'w"
  fetchCommitDetail :: "jsstring \<Rightarrow> 'w \<Rightarrow> Stats option response \<times> 'w"
  analyzeCode :: "jsstring \<Rightarrow> jsstring \<Rightarrow> 'w \<Rightarrow> (error + AnalysisResult) \<times> 'w"
  dateTime :: dateparser
  localeCompare :: "jsstring \<Rightarrow> jsstring \<Rightarrow> int"

definition contentsUrl :: "jsstring \<Rightarrow> jsstring \<Rightarrow> jsstring \<Rightarrow> jsstring \<Rightarrow> jsstring" where
  "contentsUrl owner repo dir ref =
     str ''https://api.github.com/repos/'' @ owner @ str ''/'' @ repo @ str ''/contents/'' @ dir
       @ str ''?ref='' @ ref"

text \<open>
  \<open>fetchGitHubContents\<close>. A response that is not ok makes the function try the branch
  \<open>master\<close> when the branch was \<open>main\<close>; the \<open>catch\<close> block logs and throws again.
\<close>

function fetchGitHubContents :: "'w env \<Rightarrow> jsstring \<Rightarrow> jsstring \<Rightarrow> jsstring \<Rightarrow> jsstring \<Rightarrow> 'w
    \<Rightarrow> (error + GitHubFile list) \<times> 'w" where
  "fetchGitHubContents env owner repo dir ref w =
    (case fetchContents env (contentsUrl owner repo dir ref) w of
       (Rejected, w1) \<Rightarrow> (Inl FetchFailed, w1)
     | (Response status body, w1) \<Rightarrow>
         if \<not> ok status
         then (if ref = str ''main'' then fetchGitHubContents env owner repo dir (str ''master'') w1
               else (Inl (ApiError status), w1))
         else (case body of
                 None \<Rightarrow> (Inl FetchFailed, w1)
               | Some (Listing files) \<Rightarrow> (Inr (map (\<lambda>file. file\<lparr>branch := Some ref\<rparr>) files), w1)
               | Some (Single file) \<Rightarrow> (Inr [file\<lparr>branch := Some ref\<rparr>], w1)))"
  by pat_completeness auto
termination
  by (relation "measure (\<lambda>(env, owner, repo, dir, ref, w). if ref = str ''main'' then 1 else 0)")
     (auto simp: str_def)

definition fetchGitHubRepo :: "'w env \<Rightarrow> jsstring \<Rightarrow> jsstring \<Rightarrow> 'w \<Rightarrow> (error + GitHubRepo) \<times> 'w" where
  "fetchGitHubRepo env owner repo w =
    (case fetchRepo env (str ''https://api.github.com/repos/'' @ owner @ str ''/'' @ repo) w of
       (Rejected, w1) \<Rightarrow> (Inl FetchFailed, w1)
     | (Response status body, w1) \<Rightarrow>
         if \<not> ok status then (Inl (ApiError status), w1)
         else (case body of None \<Rightarrow> (Inl FetchFailed, w1) | Some info \<Rightarrow> (Inr info, w1)))"

text \<open>\<open>fetchGitHubBranches\<close>: its \<open>catch\<close> block returns the empty list.\<close>

definition branchesUrl :: "jsstring \<Rightarrow> jsstring \<Rightarrow> jsstring" where
  "branchesUrl owner repo = str ''https://api.github.com/repos/'' @ owner @ str ''/'' @ repo @ str ''/branches''"

definition fetchGitHubBranches :: "'w env \<Rightarrow> jsstring \<Rightarrow> jsstring \<Rightarrow> 'w \<Rightarrow> GitHubBranch list \<times> 'w" where
  "fetchGitHubBranches env owner repo w =
    (case fetchBranches env (branchesUrl owner repo) w of
       (Rejected, w1) \<Rightarrow> ([], w1)
     | (Response status body, w1) \<Rightarrow>
         if \<not> ok status then ([], w1)
         else (case body of None \<Rightarrow> ([], w1) | Some branches \<Rightarrow> (branches, w1)))"

definition fetchFileContent :: "'w env \<Rightarrow> jsstring \<Rightarrow> 'w \<Rightarrow> (error + jsstring) \<times> 'w" where
  "fetchFileContent env downloadUrl w =
    (case fetchText env downloadUrl w of
       (Rejected, w1) \<Rightarrow> (Inl FetchFailed, w1)
     | (Response status body, w1) \<Rightarrow>
         if \<not> ok status then (Inl (FileError status), w1)
         else (case body of None \<Rightarrow> (Inl FetchFailed, w1) | Some content \<Rightarrow> (Inr content, w1)))"

section \<open>Harvesting the files\<close>

text \<open>
  \<open>getAllFiles\<close>: the files below a directory, to the depth \<open>maxDepth\<close>. A failure of the
  first request is thrown on; a failure below a sub-directory only skips that
  sub-directory.
\<close>

fun getAllFiles :: "'w env \<Rightarrow> jsstring \<Rightarrow> jsstring \<Rightarrow> jsstring \<Rightarrow> nat \<Rightarrow> jsstring \<Rightarrow> 'w
    \<Rightarrow> (error + GitHubFile list) \<times> 'w" where
  "getAllFiles env owner repo dir 0 ref w = (Inr [], w)"
| "getAllFiles env owner repo dir (Suc maxDepth) ref w =
    (case fetchGitHubContents env owner repo dir ref w of
       (Inl e, w1) \<Rightarrow> (Inl e, w1)
     | (Inr contents, w1) \<Rightarrow>
         (case foldl (\<lambda>st item.
                  if ftype item = TFile then (fst st @ [item], snd st)
                  else if ftype item = TDir \<and> \<not> shouldSkipDirectory (path item) (f_name item)
                  then (case getAllFiles env owner repo (path item) maxDepth ref (snd st) of
                          (Inl e, w2) \<Rightarrow> (fst st, w2)
                        | (Inr subFiles, w2) \<Rightarrow> (fst st @ subFiles, w2))
                  else st)
                ([], w1) contents of
            (allFiles, w3) \<Rightarrow> (Inr allFiles, w3)))"

text \<open>The key under which a file is remembered, \<open>`${file.path}-${file.size}`\<close>.\<close>

definition fileKey :: "GitHubFile \<Rightarrow> jsstring" where
  "fileKey file = path file @ str ''-'' @ numberToString (fsize file)"

text \<open>The body of the inner loop: \<open>allFiles\<close> and the set \<open>seenFiles\<close>, and one file of a branch.\<close>

definition addFile :: "GitHubFile list \<times> jsstring list \<Rightarrow> GitHubFile \<Rightarrow> GitHubFile list \<times> jsstring list" where
  "addFile st file =
    (let allFiles = fst st; seenFiles = snd st; fileKey = fileKey file
     in if fileKey \<notin> set seenFiles then (allFiles @ [file], seenFiles @ [fileKey])
        else (allFiles, seenFiles))"

text \<open>The loop over the sorted branches; a branch whose harvest fails is skipped.\<close>

fun harvestBranches :: "'w env \<Rightarrow> jsstring \<Rightarrow> jsstring \<Rightarrow> GitHubBranch list
    \<Rightarrow> GitHubFile list \<times> jsstring list \<Rightarrow> 'w \<Rightarrow> (GitHubFile list \<times> jsstring list) \<times> 'w" where
  "harvestBranches env owner repo [] st w = (st, w)"
| "harvestBranches env owner repo (b # branches) st w =
    (case getAllFiles env owner repo [] 4 (b_name b) w of
       (Inl e, w1) \<Rightarrow> harvestBranches env owner repo branches st w1
     | (Inr branchFiles, w1) \<Rightarrow>
         harvestBranches env owner repo branches (foldl addFile st branchFiles) w1)"

text \<open>
  The comparison function that puts \<open>main\<close> and \<open>master\<close> first is positive. It is not
  a consistent ordering when both names occur (each is put before the other); the order
  of the two is then the choice of the implementation, and \<open>sortBy\<close> need not make the
  same choice.
\<close>

definition branchAfter :: "(jsstring \<Rightarrow> jsstring \<Rightarrow> int) \<Rightarrow> GitHubBranch \<Rightarrow> GitHubBranch \<Rightarrow> bool" where
  "branchAfter compare a b =
    (if b_name a = str ''main'' \<or> b_name a = str ''master'' then False
     else if b_name b = str ''main'' \<or> b_name b = str ''master'' then True
     else 0 < compare (b_name a) (b_name b))"

definition getAllFilesFromAllBranches :: "'w env \<Rightarrow> jsstring \<Rightarrow> jsstring \<Rightarrow> 'w
    \<Rightarrow> (GitHubFile list \<times> nat) \<times> 'w" where
  "getAllFilesFromAllBranches env owner repo w =
    (case fetchGitHubBranches env owner repo w of
       (branches, w1) \<Rightarrow>
         let sortedBranches = sortBy (branchAfter (localeCompare env)) branches
         in (case harvestBranches env owner repo sortedBranches ([], []) w1 of
               (st, w2) \<Rightarrow> ((fst st, length branches), w2)))"

text \<open>
  For stating what the harvest keeps: the files of all the branches whose harvest
  succeeds, in the order in which the loop meets them, before any is dropped as seen.
\<close>

fun harvested :: "'w env \<Rightarrow> jsstring \<Rightarrow> jsstring \<Rightarrow> GitHubBranch list \<Rightarrow> 'w \<Rightarrow> GitHubFile list" where
  "harvested env owner repo [] w = []"
| "harvested env owner repo (b # branches) w =
    (case getAllFiles env owner repo [] 4 (b_name b) w of
       (Inl e, w1) \<Rightarrow> harvested env owner repo branches w1
     | (Inr branchFiles, w1) \<Rightarrow> branchFiles @ harvested env owner repo branches w1)"

definition allHarvested :: "'w env \<Rightarrow> jsstring \<Rightarrow> jsstring \<Rightarrow> 'w \<Rightarrow> GitHubFile list" where
  "allHarvested env owner repo w =
    (case fetchGitHubBranches env owner repo w of
       (branches, w1) \<Rightarrow> harvested env owner repo (sortBy (branchAfter (localeCompare env)) branches) w1)"

section \<open>The marker keyword\<close>

text \<open>
  The two loops of \<open>checkForLovableKeyword\<close> do the same with each file: skip it when
  it has no download URL, fetch it, and return true at the first content that contains
  \<open>lovable\<close>; a failed fetch is skipped.
\<close>

fun scanForLovable :: "'w env \<Rightarrow> GitHubFile list \<Rightarrow> 'w \<Rightarrow> bool \<times> 'w" where
  "scanForLovable env [] w = (False, w)"
| "scanForLovable env (file # rest) w =
    (case download_url file of
       None \<Rightarrow> scanForLovable env rest w
     | Some u \<Rightarrow>
         if u = [] then scanForLovable env rest w
         else (case fetchFileContent env u w of
                 (Inl e, w1) \<Rightarrow> scanForLovable env rest w1
               | (Inr content, w1) \<Rightarrow>
                   if includesStr (toLowerCase content) (str ''lovable'') then (True, w1)
                   else scanForLovable env rest w1))"

definition checkForLovableKeyword :: "'w env \<Rightarrow> jsstring \<Rightarrow> jsstring \<Rightarrow> GitHubFile list \<Rightarrow> 'w \<Rightarrow> bool \<times> 'w" where
  "checkForLovableKeyword env owner repo allFiles w =
    (let specialFiles = [str ''index.html'', str ''package.json''];
         found = concat (map (\<lambda>fileName.
                    case find (\<lambda>f. f_name f = fileName \<and> path f = fileName) allFiles of
                      None \<Rightarrow> [] | Some file \<Rightarrow> [file]) specialFiles)
     in case scanForLovable env found w of
          (True, w1) \<Rightarrow> (True, w1)
        | (False, w1) \<Rightarrow>
            scanForLovable env (filter (\<lambda>file. startsWith (path file) (str ''src/'')) allFiles) w1)"

section \<open>Fetching the commits\<close>

text \<open>
  The statistics of the commits of one page. The source starts these requests together
  and waits for all of them; the model makes them in the order of the page. The status
  of the response is not examined; a rejected request, an unreadable body and a body
  without \<open>stats\<close> all give zero statistics.
\<close>

fun fetchStats :: "'w env \<Rightarrow> jsstring \<Rightarrow> jsstring \<Rightarrow> GitHubCommit list \<Rightarrow> 'w \<Rightarrow> GitHubCommit list \<times> 'w" where
  "fetchStats env owner repo [] w = ([], w)"
| "fetchStats env owner repo (c # cs) w =
    (case fetchCommitDetail env (str ''https://api.github.com/repos/'' @ owner @ str ''/'' @ repo
                                  @ str ''/commits/'' @ gh_sha c) w of
       (r, w1) \<Rightarrow>
         let st = (case r of Response status (Some (Some statsData)) \<Rightarrow> statsData
                   | _ \<Rightarrow> \<lparr>additions = 0, deletions = 0, total = 0\<rparr>)
         in (case fetchStats env owner repo cs w1 of
               (others, w2) \<Rightarrow> (c\<lparr>gh_stats := Some st\<rparr> # others, w2)))"

text \<open>
  The loop \<open>while (page <= 10)\<close> of \<open>fetchGitHubCommits\<close>; the first argument counts the
  rounds that are left.
\<close>

fun fetchCommitPages :: "nat \<Rightarrow> 'w env \<Rightarrow> jsstring \<Rightarrow> jsstring \<Rightarrow> nat \<Rightarrow> GitHubCommit list \<Rightarrow> 'w
    \<Rightarrow> (error + GitHubCommit list) \<times> 'w" where
  "fetchCommitPages 0 env owner repo page commits w = (Inr commits, w)"
| "fetchCommitPages (Suc n) env owner repo page commits w =
    (case fetchCommitList env (str ''https://api.github.com/repos/'' @ owner @ str ''/'' @ repo
                                @ str ''/commits?page='' @ numberToString page
                                @ str ''&per_page='' @ numberToString 100) w of
       (Rejected, w1) \<Rightarrow> (Inl FetchFailed, w1)
     | (Response status body, w1) \<Rightarrow>
         if \<not> ok status then (Inl (ApiError status), w1)
         else (case body of
                 None \<Rightarrow> (Inl FetchFailed, w1)
               | Some data \<Rightarrow>
                   if length data = 0 then (Inr commits, w1)
                   else (case fetchStats env owner repo data w1 of
                           (commitsWithStats, w2) \<Rightarrow>
                             if length data < 100 then (Inr (commits @ commitsWithStats), w2)
                             else fetchCommitPages n env owner repo (page + 1)
                                    (commits @ commitsWithStats) w2)))"

definition fetchGitHubCommits :: "'w env \<Rightarrow> jsstring \<Rightarrow> jsstring \<Rightarrow> 'w \<Rightarrow> (error + GitHubCommit list) \<times> 'w" where
  "fetchGitHubCommits env owner repo w = fetchCommitPages 10 env owner repo 1 [] w"

definition analyzeCommitHistory :: "'w env \<Rightarrow> jsstring \<Rightarrow> jsstring \<Rightarrow> 'w \<Rightarrow> (error + CommitHistory) \<times> 'w" where
  "analyzeCommitHistory env owner repo w =
    (case fetchGitHubCommits env owner repo w of
       (Inl e, w1) \<Rightarrow> (Inl e, w1)
     | (Inr githubCommits, w1) \<Rightarrow> (Inr (summarizeCommits (dateTime env) githubCommits), w1))"

section \<open>The analysis of a repository\<close>

record FileAnalysis =
  fa_path :: jsstring
  language :: jsstring
  analysis :: AnalysisResult
  fa_size :: nat

record OverallStats =
  o_totalLines :: nat
  o_aiLines :: nat
  o_humanLines :: nat
  o_aiPercentage :: rat
  o_humanPercentage :: rat
  o_overallConfidence :: rat

record RepositoryAnalysis =
  repositoryUrl :: jsstring
  originalRepositoryUrl :: "jsstring option"
  isForked :: bool
  totalFiles :: nat
  analyzedFiles :: nat
  totalBranches :: nat
  files :: "FileAnalysis list"
  overallStats :: OverallStats
  hasLovableLabel :: bool
  commitAnalysis :: "CommitHistory option"

text \<open>\<open>/github\.com\/([^\/]+)\/([^\/]+)/\<close> and \<open>/([^\/]+)\/([^\/]+)/\<close>\<close>

definition repositoryUrlPattern :: regex where
  "repositoryUrlPattern =
     seqs [lit ''github.com/'', Grp (PlusC (\<lambda>c. c \<noteq> 47)), chr CHR ''/'', Grp (PlusC (\<lambda>c. c \<noteq> 47))]"

definition fullNamePattern :: regex where
  "fullNamePattern = seqs [Grp (PlusC (\<lambda>c. c \<noteq> 47)), chr CHR ''/'', Grp (PlusC (\<lambda>c. c \<noteq> 47))]"

text \<open>The owner and the repository named by the URL, or \<open>None\<close> when the URL does not match.\<close>

definition parseRepositoryUrl :: "jsstring \<Rightarrow> (jsstring \<times> jsstring) option" where
  "parseRepositoryUrl repoUrl =
    (case regexExec repositoryUrlPattern repoUrl of
       Some (whole, [owner, repo]) \<Rightarrow> Some (owner, repo)
     | _ \<Rightarrow> None)"

text \<open>
  The check for a fork: the owner and repository to analyze, \<open>isForked\<close> and
  \<open>originalRepositoryUrl\<close>. A failure of the request is caught: the analysis goes on with
  the repository of the URL.
\<close>

definition resolveFork :: "'w env \<Rightarrow> jsstring \<Rightarrow> jsstring \<Rightarrow> 'w
    \<Rightarrow> (jsstring \<times> jsstring \<times> bool \<times> jsstring option) \<times> 'w" where
  "resolveFork env owner repo w =
    (case fetchGitHubRepo env owner repo w of
       (Inl e, w1) \<Rightarrow> ((owner, repo, False, None), w1)
     | (Inr repoInfo, w1) \<Rightarrow>
         (case parent repoInfo of
            None \<Rightarrow> ((owner, repo, False, None), w1)
          | Some p \<Rightarrow>
              if \<not> fork repoInfo then ((owner, repo, False, None), w1)
              else (case regexExec fullNamePattern (full_name p) of
                      Some (whole, [owner', repo']) \<Rightarrow> ((owner', repo', True, Some (parent_html_url p)), w1)
                    | _ \<Rightarrow> ((owner, repo, True, Some (parent_html_url p)), w1))))"

text \<open>The filter for the files that can be analyzed: the path, a size that is not zero
  and below one megabyte, and a download URL.\<close>

definition analyzeable :: "GitHubFile \<Rightarrow> bool" where
  "analyzeable file =
     (shouldAnalyzeFile (path file) \<and> fsize file \<noteq> 0 \<and> fsize file < 1024 * 1024
      \<and> truthy (download_url file))"

text \<open>
  The state of the loop over the files: \<open>fileAnalyses\<close>, the four totals and
  \<open>analyzedCount\<close>. A failure of the fetch or of the classifier is caught and the file
  left out; a file that is empty after trimming is skipped.
\<close>

record Totals =
  fileAnalyses :: "FileAnalysis list"
  sumLines :: nat
  sumAiLines :: nat
  sumHumanLines :: nat
  sumConfidence :: rat
  analyzedCount :: nat

definition analyzeFile :: "'w env \<Rightarrow> Totals \<times> 'w \<Rightarrow> GitHubFile \<Rightarrow> Totals \<times> 'w" where
  "analyzeFile env st file =
    (case download_url file of
       None \<Rightarrow> st
     | Some u \<Rightarrow>
         (case fetchFileContent env u (snd st) of
            (Inl e, w1) \<Rightarrow> (fst st, w1)
          | (Inr content, w1) \<Rightarrow>
              let lang = getLanguageFromPath (path file)
              in if list_all space content then (fst st, w1)
                 else (case analyzeCode env content lang w1 of
                         (Inl e, w2) \<Rightarrow> (fst st, w2)
                       | (Inr result, w2) \<Rightarrow>
                           ((fst st)\<lparr>fileAnalyses := fileAnalyses (fst st) @
                                       [\<lparr>fa_path = path file, language = lang, analysis = result,
                                         fa_size = fsize file\<rparr>],
                                     sumLines := sumLines (fst st) + totalLines result,
                                     sumAiLines := sumAiLines (fst st) + aiLines result,
                                     sumHumanLines := sumHumanLines (fst st) + humanLines result,
                                     sumConfidence := js_add (sumConfidence (fst st)) (overallConfidence result),
                                     analyzedCount := analyzedCount (fst st) + 1\<rparr>, w2))))"

text \<open>The comparison function of the final sort of the files is positive.\<close>

definition hasEvidence :: "jsstring \<Rightarrow> FileAnalysis \<Rightarrow> bool" where
  "hasEvidence word a =
     list_ex (\<lambda>line. l_isAI line \<and> list_ex (\<lambda>r. includesStr r word) (l_reasons line))
       (lineAnalysis (analysis a))"

definition fileAfter :: "FileAnalysis \<Rightarrow> FileAnalysis \<Rightarrow> bool" where
  "fileAfter a b =
    (let aHasInvisible = hasEvidence (str ''invisible Unicode'') a;
         bHasInvisible = hasEvidence (str ''invisible Unicode'') b;
         aHasEmoji = hasEvidence (str ''emojis'') a;
         bHasEmoji = hasEvidence (str ''emojis'') b
     in if aHasInvisible \<and> \<not> bHasInvisible then False
        else if \<not> aHasInvisible \<and> bHasInvisible then True
        else if aHasEmoji \<and> \<not> bHasEmoji then False
        else if \<not> aHasEmoji \<and> bHasEmoji then True
        else 0 < js_sub (aiPercentage (analysis b)) (aiPercentage (analysis a)))"

text \<open>
  \<open>analyzeGitHubRepository\<close>. The progress callback only observes the run and is left
  out. The function throws at two places, and every other failure is caught before it
  gets here.
\<close>

definition analyzeGitHubRepository :: "'w env \<Rightarrow> jsstring \<Rightarrow> bool \<Rightarrow> 'w
    \<Rightarrow> (error + RepositoryAnalysis) \<times> 'w" where
  "analyzeGitHubRepository env repoUrl includeCommitHistory w =
    (case parseRepositoryUrl repoUrl of
       None \<Rightarrow> (Inl InvalidUrl, w)
     | Some (owner0, repo0) \<Rightarrow>
        (case resolveFork env owner0 repo0 w of
           ((owner, repo, forked, original), w1) \<Rightarrow>
            (case getAllFilesFromAllBranches env owner repo w1 of
               ((allFiles, branchCount), w2) \<Rightarrow>
                (case checkForLovableKeyword env owner repo allFiles w2 of
                   (lovable, w3) \<Rightarrow>
                     let analyzeableFiles = filter analyzeable allFiles
                     in if length analyzeableFiles = 0 then (Inl NoAnalyzeableFiles, w3)
                        else
                          (case foldl (analyzeFile env)
                                  (\<lparr>fileAnalyses = [], sumLines = 0, sumAiLines = 0, sumHumanLines = 0,
                                    sumConfidence = 0, analyzedCount = 0\<rparr>, w3) analyzeableFiles of
                             (t, w4) \<Rightarrow>
                               let stats =
                                     \<lparr>o_totalLines = sumLines t, o_aiLines = sumAiLines t,
                                      o_humanLines = sumHumanLines t,
                                      o_aiPercentage =
                                        (if sumLines t > 0
                                         then js_mul (js_div (js_num (sumAiLines t)) (js_num (sumLines t))) 100
                                         else 0),
                                      o_humanPercentage =
                                        (if sumLines t > 0
                                         then js_mul (js_div (js_num (sumHumanLines t)) (js_num (sumLines t))) 100
                                         else 0),
                                      o_overallConfidence =
                                        (if analyzedCount t > 0
                                         then js_div (sumConfidence t) (js_num (analyzedCount t)) else 0)\<rparr>;
                                   sortedFiles = sortBy fileAfter (fileAnalyses t);
                                   history =
                                     (if includeCommitHistory
                                      then (case analyzeCommitHistory env owner repo w4 of
                                              (Inl e, w5) \<Rightarrow> (None, w5)
                                            | (Inr h, w5) \<Rightarrow> (Some h, w5))
                                      else (None, w4))
                               in (Inr \<lparr>repositoryUrl = (case original of Some u \<Rightarrow> u | None \<Rightarrow> repoUrl),
                                        originalRepositoryUrl = original,
                                        isForked = forked,
                                        totalFiles = length allFiles,
                                        analyzedFiles = length (fileAnalyses t),
                                        totalBranches = branchCount,
                                        files = sortedFiles,
                                        overallStats = stats,
                                        hasLovableLabel = lovable,
                                        commitAnalysis = fst history\<rparr>, snd history))))))"

text \<open>
  For stating when the run fails: the files harvested in a run for a URL that names a
  repository.
\<close>

definition harvestedFiles :: "'w env \<Rightarrow> jsstring \<Rightarrow> 'w \<Rightarrow> GitHubFile list option" where
  "harvestedFiles env repoUrl w =
    (case parseRepositoryUrl repoUrl of
       None \<Rightarrow> None
     | Some (owner0, repo0) \<Rightarrow>
        (case resolveFork env owner0 repo0 w of
           ((owner, repo, forked, original), w1) \<Rightarrow>
             Some (fst (fst (getAllFilesFromAllBranches env owner repo w1)))))"

text \<open>
  For stating what a failure of the branch list does: whether the request for the
  branches that the run makes comes back without a list (rejected, a status that is not
  ok, or a body that cannot be read).
\<close>

definition noBranchList :: "GitHubBranch list response \<Rightarrow> bool" where
  "noBranchList r = (case r of Rejected \<Rightarrow> True | Response status body \<Rightarrow> \<not> ok status \<or> body = None)"

definition branchListFails :: "'w env \<Rightarrow> jsstring \<Rightarrow> 'w \<Rightarrow> bool" where
  "branchListFails env repoUrl w =
    (case parseRepositoryUrl repoUrl of
       None \<Rightarrow> False
     | Some (owner0, repo0) \<Rightarrow>
        (case resolveFork env owner0 repo0 w of
           ((owner, repo, forked, original), w1) \<Rightarrow>
             noBranchList (fst (fetchBranches env (branchesUrl owner repo) w1))))"

section \<open>Example environments\<close>

text \<open>
  A file \<open>README.md\<close> of size 120, and a small outside world without state: the branch
  list and the directory listings are given, every repository is no fork, every file has
  the same one-line content, there are no commits, and the classifier finds one human
  line.
\<close>

definition readme :: GitHubFile where
  "readme = \<lparr>f_name = str ''README.md'', path = str ''README.md'', ftype = TFile,
              download_url = Some (str ''https://raw.githubusercontent.com/octo/demo/README.md''),
              fsize = 120, branch = None\<rparr>"

definition simpleEnv :: "GitHubBranch list response \<Rightarrow> (jsstring \<Rightarrow> contents response) \<Rightarrow> unit env" where
  "simpleEnv branchesResponse contentsOf =
    \<lparr>fetchContents = (\<lambda>url w. (contentsOf url, w)),
     fetchRepo = (\<lambda>url w. (Response 200 (Some \<lparr>fork = False, parent = None\<rparr>), w)),
     fetchBranches = (\<lambda>url w. (branchesResponse, w)),
     fetchText = (\<lambda>url w. (Response 200 (Some (str ''# demo'')), w)),
     fetchCommitList = (\<lambda>url w. (Response 200 (Some []), w)),
     fetchCommitDetail = (\<lambda>url w. (Rejected, w)),
     analyzeCode = (\<lambda>content lang w.
        (Inr \<lparr>totalLines = 1, aiLines = 0, humanLines = 1, overallConfidence = 0, aiPercentage = 0,
              lineAnalysis = [\<lparr>l_isAI = False, l_reasons = []\<rparr>]\<rparr>, w)),
     dateTime = (\<lambda>s. None),
     localeCompare = (\<lambda>a b. 0)\<rparr>"

text \<open>Two branches, \<open>dev\<close> and \<open>main\<close>, each with the one file \<open>README.md\<close> of size 120.\<close>

definition twoBranchEnv :: "unit env" where
  "twoBranchEnv = simpleEnv
     (Response 200 (Some [\<lparr>b_name = str ''dev'', b_sha = str ''d1''\<rparr>,
                          \<lparr>b_name = str ''main'', b_sha = str ''m1''\<rparr>]))
     (\<lambda>url. Response 200 (Some (Listing [readme])))"

text \<open>The root of the branch \<open>main\<close> of \<open>octo/demo\<close> answers with the status 500; every
  other listing is the one file.\<close>

definition serverErrorEnv :: "unit env" where
  "serverErrorEnv = simpleEnv (Response 200 (Some [\<lparr>b_name = str ''main'', b_sha = str ''m1''\<rparr>]))
     (\<lambda>url. if url = contentsUrl (str ''octo'') (str ''demo'') [] (str ''main'')
             then Response 500 None else Response 200 (Some (Listing [readme])))"

text \<open>The request for the branch list is rejected; the listings would be there.\<close>

definition noBranchesEnv :: "unit env" where
  "noBranchesEnv = simpleEnv Rejected (\<lambda>url. Response 200 (Some (Listing [readme])))"

text \<open>The request for the branch list is answered with the status 403 (a rate limit).\<close>

definition rateLimitedEnv :: "unit env" where
  "rateLimitedEnv = simpleEnv (Response 403 None) (\<lambda>url. Response 200 (Some (Listing [readme])))"

text \<open>One branch, \<open>main\<close>; every request for a directory is answered with the status 500.\<close>

definition brokenRootEnv :: "unit env" where
  "brokenRootEnv = simpleEnv (Response 200 (Some [\<lparr>b_name = str ''main'', b_sha = str ''m1''\<rparr>]))
     (\<lambda>url. Response 500 None)"

text \<open>
  The commits of the scenario of the specification: the message \<open>feat: add login\<close>, an
  author date and a number of changed lines; the author is given by name and email.
\<close>

definition scenarioCommit :: "jsstring \<Rightarrow> jsstring \<Rightarrow> string \<Rightarrow> nat \<Rightarrow> GitHubCommit" where
  "scenarioCommit nm em d t =
    \<lparr>gh_sha = [],
     commit = \<lparr>ci_message = str ''feat: add login'',
               ci_author = \<lparr>name = nm, email = em, date = str d\<rparr>,
               ci_committer = \<lparr>name = nm, email = em, date = str d\<rparr>\<rparr>,
     html_url = [],
     gh_stats = Some \<lparr>additions = t, deletions = 0, total = t\<rparr>\<rparr>"

section \<open>Properties\<close>

subsection \<open>Numbers\<close>

lemma js_lit_half: "js_lit (1 / 2) = 1 / 2"
  by code_simp

lemma js_lit_09_bounds: "0 \<le> js_lit (9 / 10) \<and> js_lit (9 / 10) \<le> 1"
  by code_simp

lemma js_lit_08_bounds: "0 \<le> js_lit (8 / 10) \<and> js_lit (8 / 10) \<le> 1"
  by code_simp

lemma js_lit_06_bounds: "0 \<le> js_lit (6 / 10) \<and> js_lit (6 / 10) \<le> 1"
  by code_simp

lemma grammar_1: "js_add (js_lit (1 / 2)) (js_mul (js_num 1) (js_lit (1 / 10))) \<le> 1"
  by code_simp

lemma grammar_2: "js_add (js_lit (1 / 2)) (js_mul (js_num 2) (js_lit (1 / 10))) \<le> 1"
  by code_simp

lemma grammar_3: "js_add (js_lit (1 / 2)) (js_mul (js_num 3) (js_lit (1 / 10))) \<le> 1"
  by code_simp

lemma grammar_candidate_le:
  assumes "0 < g" "g \<le> 3"
  shows "js_add (js_lit (1 / 2)) (js_mul (js_num g) (js_lit (1 / 10))) \<le> 1"
proof -
  from assms have "g = 1 \<or> g = 2 \<or> g = 3" by arith
  then show ?thesis using grammar_1 grammar_2 grammar_3 by auto
qed

lemma rne_0: "rne 0 = 0"
  by (simp add: rne_def)

lemma js_num_0: "js_num 0 = 0"
  by (simp add: js_num_def rne_0)

lemma js_div_0: "js_div 0 b = 0"
  by (simp add: js_div_def rne_0)

lemma js_mul_0: "js_mul 0 b = 0"
  by (simp add: js_mul_def rne_0)

lemma first_commit_hours: "js_add (js_add 0 (js_lit (1 / 2))) 0 = 1 / 2"
  by code_simp

lemma round_half_hour: "js_div (Math_round (js_mul (1 / 2) 10)) 10 = 1 / 2"
  by code_simp

text \<open>\<open>Math.min(0.8, 0.3 + 1 * 0.15)\<close>: the sum is the double just below 0.45.\<close>

lemma one_pattern_candidate:
  "min (js_lit (4 / 5)) (js_add (js_lit (3 / 10)) (js_mul (js_num (Suc 0)) (js_lit (3 / 20))))
     = 8106479329266892 / 2 ^ 54"
  by code_simp

lemma one_pattern_not_ai: "\<not> js_lit (1 / 2) < 8106479329266892 / 2 ^ 54"
  by code_simp

lemma lit_045: "js_lit (45 / 100) \<noteq> 8106479329266892 / 2 ^ 54"
  by code_simp

subsection \<open>Regular expressions\<close>

lemma search_Cls: "(search (Cls P) p s \<noteq> None) = list_ex P s"
  by (induction s arbitrary: p) auto

lemma test_Cls: "test (Cls P) s = list_ex P s"
  unfolding test_def regexExec_def by (rule search_Cls)

lemmas regex_eval = test_def regexExec_def seqs_def lit_def liti_def chr_def ci_def dot_def space_def
  isWordChar_def

subsection \<open>The commit classifier\<close>

lemma test_invisibleChars: "test invisibleChars msg = list_ex invisible msg"
  by (simp add: invisibleChars_def test_Cls)

lemma grammarScore_le: "length (filter P perfectGrammarIndicators) \<le> 3"
proof -
  have "length (filter P perfectGrammarIndicators) \<le> length perfectGrammarIndicators"
    by (rule length_filter_le)
  also have "length perfectGrammarIndicators = 3"
    by (simp add: perfectGrammarIndicators_def)
  finally show ?thesis .
qed

text \<open>The running maximum of the four checks after the first is the maximum of the
  candidates of the checks that fire.\<close>

lemma running_max:
  fixes e pc lc gc :: rat
  shows "(if G then max (if L then max (if M then max (if E then max 0 e else 0) pc
                                         else (if E then max 0 e else 0)) lc
                          else (if M then max (if E then max 0 e else 0) pc
                                else (if E then max 0 e else 0))) gc
          else (if L then max (if M then max (if E then max 0 e else 0) pc
                               else (if E then max 0 e else 0)) lc
                else (if M then max (if E then max 0 e else 0) pc
                      else (if E then max 0 e else 0))))
         = foldr max ((if E then [e] else []) @ (if M then [pc] else []) @ (if L then [lc] else [])
                      @ (if G then [gc] else [])) 0"
  by (cases E; cases M; cases L; cases G) (simp_all add: max.assoc max.commute max.left_commute)

lemma confidence_eq_candidates:
  "confidence (analyzeCommitMessage m) = foldr max (triggeredCandidates m) 0"
proof (cases "list_ex invisible m")
  case True
  then show ?thesis
    by (simp add: analyzeCommitMessage_def triggeredCandidates_def test_invisibleChars)
next
  case False
  then show ?thesis
    unfolding analyzeCommitMessage_def triggeredCandidates_def test_invisibleChars Let_def
    by (simp only: if_False classification.simps running_max)
qed

lemma Max_insert0_foldr: "Max (insert (0::rat) (set xs)) = foldr max xs 0"
proof (induction xs)
  case Nil
  then show ?case by simp
next
  case (Cons x xs)
  have "Max (insert 0 (set (x # xs))) = Max (insert x (insert 0 (set xs)))"
    by (simp add: insert_commute)
  also have "\<dots> = max x (Max (insert 0 (set xs)))"
    by (rule Max_insert) auto
  finally show ?case using Cons by simp
qed

lemma foldr_max_bounds:
  fixes xs :: "rat list"
  assumes "\<forall>x\<in>set xs. x \<le> 1"
  shows "0 \<le> foldr max xs 0 \<and> foldr max xs 0 \<le> 1"
  using assms by (induction xs) auto

lemma candidates_le: "\<forall>x\<in>set (triggeredCandidates m). x \<le> 1"
proof -
  define g where "g = length (filter (\<lambda>indicator. test indicator m) perfectGrammarIndicators)"
  have g: "0 < g \<Longrightarrow> js_add (js_lit (1 / 2)) (js_mul (js_num g) (js_lit (1 / 10))) \<le> 1"
    using grammar_candidate_le grammarScore_le unfolding g_def by blast
  have p: "min (js_lit (8 / 10)) x \<le> 1" for x
    using js_lit_08_bounds by (simp add: min_le_iff_disj)
  show ?thesis
    unfolding triggeredCandidates_def Let_def g_def [symmetric]
    using g p js_lit_09_bounds js_lit_06_bounds by auto
qed

lemma isAI_iff: "isAI (analyzeCommitMessage m) = (1 / 2 < confidence (analyzeCommitMessage m))"
  by (simp add: analyzeCommitMessage_def Let_def js_lit_half)

text \<open>
  Claim C1. A commit message that contains a code unit of the invisible-character class
  of the source (U+200B to U+200D, U+FEFF, U+2060, U+180E, U+2061 to U+2064; the
  zero-width space is U+200B) is classified with confidence exactly 1 and \<open>isAI\<close> true,
  and the list of reasons has exactly one entry, whatever else the message contains.
\<close>

theorem invisible_short_circuit:
  "\<exists>c\<in>set msg. invisible c \<Longrightarrow>
   analyzeCommitMessage msg =
     \<lparr>isAI = True, confidence = 1, reasons = [str ''Contains invisible Unicode characters'']\<rparr>
   \<and> length (reasons (analyzeCommitMessage msg)) = 1"
  by (simp add: analyzeCommitMessage_def test_invisibleChars list_ex_iff)

theorem invisible_short_circuit_witness:
  "(\<exists>c\<in>set (str ''feat: add login'' @ [0x200B]). invisible c)
   \<and> analyzeCommitMessage (str ''feat: add login'' @ [0x200B]) =
     \<lparr>isAI = True, confidence = 1, reasons = [str ''Contains invisible Unicode characters'']\<rparr>
   \<and> length (reasons (analyzeCommitMessage (str ''feat: add login'' @ [0x200B]))) = 1"
  using invisible_short_circuit [of "str ''feat: add login'' @ [0x200B]"]
  by (simp add: invisible_def)

text \<open>
  Claim C2. For every commit message the confidence lies between 0 and 1, it is the
  maximum of the candidates of the signals that trigger (0 when none does), and \<open>isAI\<close>
  holds exactly when the confidence is greater than 0.5.
\<close>

theorem confidence_range_and_threshold:
  "0 \<le> confidence (analyzeCommitMessage msg)
   \<and> confidence (analyzeCommitMessage msg) \<le> 1
   \<and> confidence (analyzeCommitMessage msg) = Max (insert 0 (set (triggeredCandidates msg)))
   \<and> isAI (analyzeCommitMessage msg) = (1 / 2 < confidence (analyzeCommitMessage msg))"
  using foldr_max_bounds [OF candidates_le, of msg] isAI_iff [of msg]
  by (simp add: confidence_eq_candidates Max_insert0_foldr)

text \<open>The message of the scenario: only the first pattern of \<open>aiPatterns\<close> matches it.\<close>

lemma feat_patterns:
  "filter (\<lambda>pattern. test (snd pattern) (str ''feat: add login'')) aiPatterns = [aiPatterns ! 0]"
  by (simp add: aiPatterns_def regex_eval str_def)
lemma feat_grammar:
  "filter (\<lambda>indicator. test indicator (str ''feat: add login'')) perfectGrammarIndicators = []"
  by (simp add: perfectGrammarIndicators_def regex_eval str_def)
lemma feat_emoji: "\<not> test emojiRegex (codePoints (str ''feat: add login''))"
  by (simp add: emojiRegex_def regex_eval str_def)
lemma feat_invisible: "\<not> test invisibleChars (str ''feat: add login'')"
  by (simp add: test_invisibleChars invisible_def str_def)
lemma feat_length: "length (str ''feat: add login'') = 15"
  by (simp add: str_def)

lemma classify_feat:
  "analyzeCommitMessage (str ''feat: add login'') =
     \<lparr>isAI = False, confidence = 8106479329266892 / 2 ^ 54,
      reasons = [str ''Matches AI pattern: '' @ fst (aiPatterns ! 0)]\<rparr>"
  using one_pattern_not_ai
  by (simp add: analyzeCommitMessage_def feat_patterns feat_grammar feat_emoji feat_invisible
      feat_length one_pattern_candidate Let_def)

subsection \<open>Sorting\<close>

lemma sum_insertBy:
  fixes f :: "'a \<Rightarrow> nat"
  shows "sum_list (map f (insertBy gt x ys)) = f x + sum_list (map f ys)"
  by (induction ys) auto

lemma sum_sortBy:
  fixes f :: "'a \<Rightarrow> nat"
  shows "sum_list (map f (sortBy gt xs)) = sum_list (map f xs)"
  unfolding sortBy_def by (induction xs) (auto simp: sum_insertBy)

lemma set_insertBy: "set (insertBy gt x ys) = insert x (set ys)"
  by (induction ys) auto

lemma set_sortBy: "set (sortBy gt xs) = set xs"
  unfolding sortBy_def by (induction xs) (auto simp: set_insertBy)

lemma length_insertBy: "length (insertBy gt x ys) = Suc (length ys)"
  by (induction ys) auto

lemma length_sortBy: "length (sortBy gt xs) = length xs"
  unfolding sortBy_def by (induction xs) (auto simp: length_insertBy)

lemma map_const_sortBy:
  assumes "\<forall>x\<in>set xs. f x = t"
  shows "map f (sortBy gt xs) = replicate (length xs) t"
proof -
  have "\<forall>x\<in>set (sortBy gt xs). f x = t" using assms by (simp add: set_sortBy)
  then have "map f (sortBy gt xs) = replicate (length (sortBy gt xs)) t"
    by (simp add: map_replicate_const [symmetric] cong: map_cong)
  then show ?thesis by (simp add: length_sortBy)
qed

lemma sortBy_single: "sortBy gt [x] = [x]"
  by (simp add: sortBy_def)

subsection \<open>The work-hour estimator\<close>

text \<open>
  Claim C9. \<open>estimateWorkHours\<close> returns 0 for the empty list, and exactly 0.5 for a
  single commit whose \<open>stats.total\<close> is 0, whatever its date and the time window.
\<close>

theorem estimateWorkHours_empty_and_single:
  "estimateWorkHours getTime [] timeWindow = 0
   \<and> (total (stats c) = 0 \<longrightarrow> estimateWorkHours getTime [c] timeWindow = 1 / 2)"
  by (simp add: estimateWorkHours_def sortBy_def workStep_def js_num_0 js_div_0
      first_commit_hours round_half_hour)

theorem estimateWorkHours_empty_and_single_witness:
  "estimateWorkHours (\<lambda>s. None) [] 4 = 0
   \<and> total (stats \<lparr>isAI = False, confidence = 0, reasons = [], sha = str ''1f3a'', message = str ''wip'',
        author = \<lparr>name = str ''ann'', email = str ''ann@example.org'', date = str ''2024-01-01T10:00:00Z''\<rparr>,
        committer = \<lparr>name = str ''ann'', email = str ''ann@example.org'', date = str ''2024-01-01T10:00:00Z''\<rparr>,
        stats = \<lparr>additions = 0, deletions = 0, total = 0\<rparr>, url = []\<rparr>) = 0
   \<and> estimateWorkHours (\<lambda>s. None)
       [\<lparr>isAI = False, confidence = 0, reasons = [], sha = str ''1f3a'', message = str ''wip'',
        author = \<lparr>name = str ''ann'', email = str ''ann@example.org'', date = str ''2024-01-01T10:00:00Z''\<rparr>,
        committer = \<lparr>name = str ''ann'', email = str ''ann@example.org'', date = str ''2024-01-01T10:00:00Z''\<rparr>,
        stats = \<lparr>additions = 0, deletions = 0, total = 0\<rparr>, url = []\<rparr>] 4 = 1 / 2"
  using estimateWorkHours_empty_and_single [of "\<lambda>s. None" 4
      "\<lparr>isAI = False, confidence = 0, reasons = [], sha = str ''1f3a'', message = str ''wip'',
        author = \<lparr>name = str ''ann'', email = str ''ann@example.org'', date = str ''2024-01-01T10:00:00Z''\<rparr>,
        committer = \<lparr>name = str ''ann'', email = str ''ann@example.org'', date = str ''2024-01-01T10:00:00Z''\<rparr>,
        stats = \<lparr>additions = 0, deletions = 0, total = 0\<rparr>, url = []\<rparr>"]
  by simp

subsection \<open>Contributor aggregates\<close>

lemma keys_mapEntry: "map fst (mapEntry k f m) = map fst m"
  by (induction m) (auto simp: mapEntry_def)

lemma mapEntry_absent: "k \<notin> fst ` set m \<Longrightarrow> mapEntry k f m = m"
  by (induction m) (auto simp: mapEntry_def)

lemma sum_mapEntry:
  fixes tc :: "'v \<Rightarrow> nat"
  assumes "distinct (map fst m)" "k \<in> fst ` set m" "\<And>v. tc (f v) = tc v + 1"
  shows "sum_list (map (\<lambda>e. tc (snd e)) (mapEntry k f m)) = sum_list (map (\<lambda>e. tc (snd e)) m) + 1"
  using assms(1,2)
proof (induction m)
  case Nil
  then show ?case by simp
next
  case (Cons e m)
  obtain k' v where e: "e = (k', v)" by (cases e)
  show ?case
  proof (cases "k' = k")
    case True
    with Cons.prems e have "k \<notin> fst ` set m" by auto
    then have "mapEntry k f m = m" by (rule mapEntry_absent)
    then have "mapEntry k f (e # m) = (k', f v) # m"
      using True e by (simp add: mapEntry_def)
    then show ?thesis using e assms(3) by simp
  next
    case False
    with Cons.prems e have "distinct (map fst m)" "k \<in> fst ` set m" by auto
    then have "sum_list (map (\<lambda>e. tc (snd e)) (mapEntry k f m)) = sum_list (map (\<lambda>e. tc (snd e)) m) + 1"
      by (rule Cons.IH)
    moreover have "mapEntry k f (e # m) = e # mapEntry k f m"
      using False e by (simp add: mapEntry_def)
    ultimately show ?thesis by simp
  qed
qed

lemma mapHas_iff: "mapHas m k = (k \<in> fst ` set m)"
  by (simp add: mapHas_def map_of_eq_None_iff)

lemma contributorStep_keys:
  "map fst (contributorStep getTime m c) =
     (if contributorKey c \<in> fst ` set m then map fst m else map fst m @ [contributorKey c])"
  by (simp add: contributorStep_def Let_def keys_mapEntry mapHas_iff)

lemma contributorStep_distinct:
  "distinct (map fst m) \<Longrightarrow> distinct (map fst (contributorStep getTime m c))"
  by (auto simp: contributorStep_keys)

lemma contributorStep_sum:
  assumes "distinct (map fst m)"
  shows "sum_list (map (\<lambda>e. totalCommits (snd e)) (contributorStep getTime m c))
         = sum_list (map (\<lambda>e. totalCommits (snd e)) m) + 1"
proof (cases "mapHas m (contributorKey c)")
  case True
  then have "contributorKey c \<in> fst ` set m" by (simp add: mapHas_iff)
  with assms True show ?thesis
    unfolding contributorStep_def Let_def
    by (simp add: sum_mapEntry)
next
  case False
  define e where "e = (contributorKey c,
      \<lparr>c_name = name (author c), c_email = email (author c), totalCommits = 0,
       totalAdditions = 0, totalDeletions = 0, estimatedHours = 0,
       aiCommitPercentage = 0, firstCommit = date (author c),
       lastCommit = date (author c), commitDays = []\<rparr>)"
  from False have notin: "contributorKey c \<notin> fst ` set m" by (simp add: mapHas_iff)
  with assms have d: "distinct (map fst (m @ [e]))" by (auto simp: e_def)
  have i: "contributorKey c \<in> fst ` set (m @ [e])" by (simp add: e_def)
  have "sum_list (map (\<lambda>e. totalCommits (snd e)) (contributorStep getTime m c))
      = sum_list (map (\<lambda>e. totalCommits (snd e)) (m @ [e])) + 1"
    using False unfolding contributorStep_def Let_def e_def [symmetric]
    by (simp add: sum_mapEntry [OF d i] Let_def)
  then show ?thesis by (simp add: e_def)
qed

lemma contributor_fold:
  "distinct (map fst m) \<Longrightarrow>
   distinct (map fst (foldl (contributorStep getTime) m cs))
   \<and> sum_list (map (\<lambda>e. totalCommits (snd e)) (foldl (contributorStep getTime) m cs))
     = sum_list (map (\<lambda>e. totalCommits (snd e)) m) + length cs"
proof (induction cs arbitrary: m)
  case Nil
  then show ?case by simp
next
  case (Cons c cs)
  from Cons.prems have d: "distinct (map fst (contributorStep getTime m c))"
    by (rule contributorStep_distinct)
  show ?case using Cons.IH [OF d] contributorStep_sum [OF Cons.prems] by simp
qed

lemma contributorFinish_totalCommits:
  "totalCommits (snd (contributorFinish getTime cs e)) = totalCommits (snd e)"
  by (simp add: contributorFinish_def Let_def)

lemma mapEntry_other:
  assumes "\<And>v. h (f v) = h v"
  shows "map (\<lambda>e. (fst e, h (snd e))) (mapEntry k f m) = map (\<lambda>e. (fst e, h (snd e))) m"
  using assms by (induction m) (auto simp: mapEntry_def)

text \<open>The key and the recorded name and email of every aggregate stay as they were
  when the aggregate was created.\<close>

lemma contributorStep_identity:
  "map (\<lambda>e. (fst e, c_name (snd e), c_email (snd e))) (contributorStep getTime m c) =
     map (\<lambda>e. (fst e, c_name (snd e), c_email (snd e))) m
     @ (if contributorKey c \<in> fst ` set m then []
        else [(contributorKey c, name (author c), email (author c))])"
  unfolding contributorStep_def Let_def
  by (subst mapEntry_other) (auto simp: mapHas_iff Let_def)

lemma contributorFinish_identity:
  "fst (contributorFinish getTime cs e) = fst e
   \<and> c_name (snd (contributorFinish getTime cs e)) = c_name (snd e)
   \<and> c_email (snd (contributorFinish getTime cs e)) = c_email (snd e)"
  by (simp add: contributorFinish_def Let_def)

lemma contributorFinish_no_ai:
  assumes "\<forall>c\<in>set cs. \<not> isAI c"
  shows "aiCommitPercentage (snd (contributorFinish getTime cs e)) = 0"
proof -
  have "filter isAI (filter (\<lambda>c. contributorKey c = fst e) cs) = []"
    using assms by (simp add: filter_empty_conv)
  then show ?thesis
    by (simp add: contributorFinish_def Let_def js_num_0 js_div_0 js_mul_0)
qed

lemma contributorStep_keyset:
  "fst ` set (contributorStep getTime m c) = insert (contributorKey c) (fst ` set m)"
proof -
  have "fst ` set (contributorStep getTime m c) = set (map fst (contributorStep getTime m c))"
    by simp
  also have "\<dots> = insert (contributorKey c) (fst ` set m)"
    unfolding contributorStep_keys by auto
  finally show ?thesis .
qed

text \<open>Two commits under one key make one aggregate, which counts both.\<close>

lemma two_commits_one_key:
  assumes "contributorKey x2 = contributorKey x1"
  shows "\<exists>s. foldl (contributorStep getTime) [] [x1, x2] = [(contributorKey x1, s)]
           \<and> c_name s = name (author x1) \<and> c_email s = email (author x1) \<and> totalCommits s = 2"
proof -
  define M where "M = foldl (contributorStep getTime) [] [x1, x2]"
  have ident: "map (\<lambda>e. (fst e, c_name (snd e), c_email (snd e))) M
      = [(contributorKey x1, name (author x1), email (author x1))]"
    using assms by (simp add: M_def contributorStep_identity contributorStep_keyset)
  then have "length (map (\<lambda>e. (fst e, c_name (snd e), c_email (snd e))) M) = 1" by simp
  then have "length M = 1" by simp
  then obtain e where M: "M = [e]" by (cases M) auto
  have "sum_list (map (\<lambda>e. totalCommits (snd e)) M) = 2"
    using contributor_fold [of "[]" getTime "[x1, x2]"] by (simp add: M_def)
  with M ident have "fst e = contributorKey x1" "c_name (snd e) = name (author x1)"
    "c_email (snd e) = email (author x1)" "totalCommits (snd e) = 2"
    by auto
  then have "M = [(contributorKey x1, snd e)] \<and> c_name (snd e) = name (author x1)
      \<and> c_email (snd e) = email (author x1) \<and> totalCommits (snd e) = 2"
    using M by (cases e) auto
  then show ?thesis unfolding M_def by blast
qed

lemma classifyCommit_author: "author (classifyCommit g) = ci_author (commit g)"
  by (simp add: classifyCommit_def Let_def)

lemma classifyCommit_classification:
  "isAI (classifyCommit g) = isAI (analyzeCommitMessage (ci_message (commit g)))
   \<and> confidence (classifyCommit g) = confidence (analyzeCommitMessage (ci_message (commit g)))
   \<and> reasons (classifyCommit g) = reasons (analyzeCommitMessage (ci_message (commit g)))"
  by (simp add: classifyCommit_def Let_def)

lemma summarize_two_one_key:
  assumes "contributorKey (classifyCommit g2) = contributorKey (classifyCommit g1)"
  shows "\<exists>s. h_contributors (summarizeCommits getTime [g1, g2]) = [s]
     \<and> c_name s = name (ci_author (commit g1)) \<and> c_email s = email (ci_author (commit g1))
     \<and> totalCommits s = 2
     \<and> aiCommitPercentage s = aiCommitPercentage (snd (contributorFinish getTime
           [classifyCommit g1, classifyCommit g2] (contributorKey (classifyCommit g1), s)))"
proof -
  from two_commits_one_key [OF assms, of getTime] obtain s where
    s: "foldl (contributorStep getTime) [] [classifyCommit g1, classifyCommit g2]
          = [(contributorKey (classifyCommit g1), s)]"
      "c_name s = name (author (classifyCommit g1))" "c_email s = email (author (classifyCommit g1))"
      "totalCommits s = 2"
    by blast
  define s' where "s' = snd (contributorFinish getTime [classifyCommit g1, classifyCommit g2]
      (contributorKey (classifyCommit g1), s))"
  have "h_contributors (summarizeCommits getTime [g1, g2]) = [s']"
    using s(1) by (simp add: summarizeCommits_def Let_def sortBy_single s'_def)
  moreover have "c_name s' = name (ci_author (commit g1))" "c_email s' = email (ci_author (commit g1))"
    "totalCommits s' = 2"
    using s by (simp_all add: s'_def contributorFinish_identity contributorFinish_totalCommits
        classifyCommit_author)
  moreover have "aiCommitPercentage s' = aiCommitPercentage (snd (contributorFinish getTime
           [classifyCommit g1, classifyCommit g2] (contributorKey (classifyCommit g1), s')))"
    by (simp add: s'_def contributorFinish_def Let_def)
  ultimately show ?thesis by blast
qed

text \<open>
  Claim C6. The \<open>totalCommits\<close> of the contributor aggregates add up to the number of
  classified commits, which is also the \<open>totalCommits\<close> of the history.
\<close>

theorem contributor_totalCommits_sum:
  "sum_list (map totalCommits (h_contributors (summarizeCommits getTime githubCommits)))
     = length githubCommits
   \<and> h_totalCommits (summarizeCommits getTime githubCommits) = length githubCommits"
proof (cases "githubCommits = []")
  case True
  then show ?thesis by (simp add: summarizeCommits_def)
next
  case False
  define commits where "commits = map classifyCommit githubCommits"
  have "sum_list (map totalCommits (h_contributors (summarizeCommits getTime githubCommits)))
      = sum_list (map (\<lambda>e. totalCommits (snd e)) (foldl (contributorStep getTime) [] commits))"
    using False
    by (simp add: summarizeCommits_def Let_def sum_sortBy commits_def comp_def
        contributorFinish_totalCommits)
  also have "\<dots> = length commits"
    using contributor_fold [of "[]" getTime commits] by simp
  finally show ?thesis using False by (simp add: commits_def summarizeCommits_def Let_def)
qed

text \<open>
  Claim C4. The key of an aggregate is the text \<open>name-email\<close>, and two different pairs
  of name and email can give the same text: the commits of \<open>Jean-Luc\<close> with email
  \<open>picard@example.org\<close> and of \<open>Jean\<close> with email \<open>Luc-picard@example.org\<close> are
  folded into one aggregate, which has the name and email of the first and counts both.
\<close>

theorem contributor_key_collision:
  "map (\<lambda>s. (c_name s, c_email s, totalCommits s))
     (h_contributors (summarizeCommits getTime
        [\<lparr>gh_sha = s1,
          commit = \<lparr>ci_message = m1,
                    ci_author = \<lparr>name = str ''Jean-Luc'', email = str ''picard@example.org'', date = t1\<rparr>,
                    ci_committer = k1\<rparr>,
          html_url = u1, gh_stats = st1\<rparr>,
         \<lparr>gh_sha = s2,
          commit = \<lparr>ci_message = m2,
                    ci_author = \<lparr>name = str ''Jean'', email = str ''Luc-picard@example.org'', date = t2\<rparr>,
                    ci_committer = k2\<rparr>,
          html_url = u2, gh_stats = st2\<rparr>]))
   = [(str ''Jean-Luc'', str ''picard@example.org'', 2)]"
proof -
  let ?g1 = "\<lparr>gh_sha = s1,
          commit = \<lparr>ci_message = m1,
                    ci_author = \<lparr>name = str ''Jean-Luc'', email = str ''picard@example.org'', date = t1\<rparr>,
                    ci_committer = k1\<rparr>,
          html_url = u1, gh_stats = st1\<rparr>"
  let ?g2 = "\<lparr>gh_sha = s2,
          commit = \<lparr>ci_message = m2,
                    ci_author = \<lparr>name = str ''Jean'', email = str ''Luc-picard@example.org'', date = t2\<rparr>,
                    ci_committer = k2\<rparr>,
          html_url = u2, gh_stats = st2\<rparr>"
  have "contributorKey (classifyCommit ?g2) = contributorKey (classifyCommit ?g1)"
    by (simp add: contributorKey_def classifyCommit_author str_def)
  from summarize_two_one_key [OF this, of getTime] show ?thesis by auto
qed

text \<open>
  Claim C10, as stated, gives the confidence 0.45. The classifier computes
  \<open>0.3 + 1 * 0.15\<close> in double arithmetic, and the result is neither the rational 0.45
  nor the double that the literal \<open>0.45\<close> denotes.
\<close>

theorem scenario_confidence_not_045:
  "confidence (analyzeCommitMessage (str ''feat: add login'')) \<noteq> 45 / 100
   \<and> confidence (analyzeCommitMessage (str ''feat: add login'')) \<noteq> js_lit (45 / 100)"
  using lit_045 by (simp add: classify_feat)

text \<open>
  Claim C10, amended. For the two commits of the scenario, of one author, exactly one
  pattern matches each message (the first of \<open>aiPatterns\<close>, the only reason recorded), the
  confidence of both is the double \<open>0.3 + 0.15 = 8106479329266892 / 2 ^ 54\<close>
  (0.44999999999999996, one unit in the last place below 0.45) and \<open>isAI\<close> is false;
  there is one contributor aggregate, with \<open>totalCommits = 2\<close> and
  \<open>aiCommitPercentage = 0\<close>.
\<close>

theorem scenario_two_login_commits:
  "map (\<lambda>c. (isAI c, confidence c, reasons c))
     (h_commits (summarizeCommits getTime
        [scenarioCommit nm em ''2024-01-01T10:00:00Z'' 20, scenarioCommit nm em ''2024-01-01T11:00:00Z'' 5]))
     = [(False, 8106479329266892 / 2 ^ 54, [str ''Matches AI pattern: '' @ fst (aiPatterns ! 0)]),
        (False, 8106479329266892 / 2 ^ 54, [str ''Matches AI pattern: '' @ fst (aiPatterns ! 0)])]
   \<and> map (\<lambda>s. (totalCommits s, aiCommitPercentage s))
       (h_contributors (summarizeCommits getTime
          [scenarioCommit nm em ''2024-01-01T10:00:00Z'' 20, scenarioCommit nm em ''2024-01-01T11:00:00Z'' 5]))
     = [(2, 0)]"
proof -
  let ?c1 = "scenarioCommit nm em ''2024-01-01T10:00:00Z'' 20"
  let ?c2 = "scenarioCommit nm em ''2024-01-01T11:00:00Z'' 5"
  have cls: "\<forall>c\<in>set [classifyCommit ?c1, classifyCommit ?c2].
      (isAI c, confidence c, reasons c)
        = (False, 8106479329266892 / 2 ^ 54, [str ''Matches AI pattern: '' @ fst (aiPatterns ! 0)])"
    by (simp add: classifyCommit_classification scenarioCommit_def classify_feat)
  have "h_commits (summarizeCommits getTime [?c1, ?c2])
      = sortBy (\<lambda>a b. timeAfter getTime (date (author b)) (date (author a)))
          [classifyCommit ?c1, classifyCommit ?c2]"
    by (simp add: summarizeCommits_def Let_def)
  then have first: "map (\<lambda>c. (isAI c, confidence c, reasons c)) (h_commits (summarizeCommits getTime [?c1, ?c2]))
       = [(False, 8106479329266892 / 2 ^ 54, [str ''Matches AI pattern: '' @ fst (aiPatterns ! 0)]),
          (False, 8106479329266892 / 2 ^ 54, [str ''Matches AI pattern: '' @ fst (aiPatterns ! 0)])]"
    using map_const_sortBy [OF cls] by (simp add: numeral_2_eq_2)
  have key: "contributorKey (classifyCommit ?c2) = contributorKey (classifyCommit ?c1)"
    by (simp add: contributorKey_def classifyCommit_author scenarioCommit_def)
  have noai: "\<forall>c\<in>set [classifyCommit ?c1, classifyCommit ?c2]. \<not> isAI c"
    using cls by simp
  from summarize_two_one_key [OF key, of getTime] contributorFinish_no_ai [OF noai]
  have "map (\<lambda>s. (totalCommits s, aiCommitPercentage s)) (h_contributors (summarizeCommits getTime [?c1, ?c2]))
       = [(2, 0)]"
    by auto
  with first show ?thesis by blast
qed

subsection \<open>The key of a harvested file\<close>

text \<open>The decimal digits of a size contain no hyphen and determine the size, so the
  key \<open>path-size\<close> determines the path and the size.\<close>

lemma digits_range: "c \<in> set (numberToString n) \<Longrightarrow> 48 \<le> c \<and> c \<le> 57"
proof (induction n rule: numberToString.induct)
  case (1 n)
  show ?case
  proof (cases "n < 10")
    case True
    with "1.prems" show ?thesis by (simp add: numberToString.simps [of n])
  next
    case False
    with "1.prems" have "c \<in> set (numberToString (n div 10)) \<or> c = 48 + n mod 10"
      by (auto simp add: numberToString.simps [of n])
    then show ?thesis using "1.IH" [OF False] by (auto simp: less_Suc_eq_le)
  qed
qed

lemma digits_nonempty: "numberToString n \<noteq> []"
  by (simp add: numberToString.simps [of n])

lemma numberToString_inj: "numberToString n = numberToString m \<Longrightarrow> n = m"
proof (induction n arbitrary: m rule: numberToString.induct)
  case (1 n)
  show ?case
  proof (cases "n < 10")
    case n: True
    show ?thesis
    proof (cases "m < 10")
      case True
      with n "1.prems" show ?thesis
        by (simp add: numberToString.simps [of n] numberToString.simps [of m])
    next
      case False
      with n "1.prems" digits_nonempty [of "m div 10"] show ?thesis
        by (simp add: numberToString.simps [of n] numberToString.simps [of m])
    qed
  next
    case n: False
    show ?thesis
    proof (cases "m < 10")
      case True
      with n "1.prems" digits_nonempty [of "n div 10"] show ?thesis
        by (simp add: numberToString.simps [of n] numberToString.simps [of m])
    next
      case False
      with n "1.prems" have "numberToString (n div 10) = numberToString (m div 10)"
        and "n mod 10 = m mod 10"
        by (simp_all add: numberToString.simps [of n] numberToString.simps [of m])
      with "1.IH" [OF n] have "n div 10 = m div 10" "n mod 10 = m mod 10" by auto
      then show ?thesis by (metis div_mult_mod_eq)
    qed
  qed
qed

lemma append_sep_inj:
  assumes "xs @ a # ds = ys @ a # es" "a \<notin> set ds" "a \<notin> set es"
  shows "xs = ys \<and> ds = es"
proof -
  from assms(1) obtain us where
    "(xs = ys @ us \<and> us @ a # ds = a # es) \<or> (xs @ us = ys \<and> a # ds = us @ a # es)"
    by (auto simp: append_eq_append_conv2)
  then show ?thesis
  proof
    assume h: "xs = ys @ us \<and> us @ a # ds = a # es"
    show ?thesis
    proof (cases us)
      case Nil
      with h show ?thesis by simp
    next
      case (Cons u us')
      with h have "es = us' @ a # ds" by simp
      with assms(3) show ?thesis by simp
    qed
  next
    assume h: "xs @ us = ys \<and> a # ds = us @ a # es"
    show ?thesis
    proof (cases us)
      case Nil
      with h show ?thesis by simp
    next
      case (Cons u us')
      with h have "ds = us' @ a # es" by simp
      with assms(2) show ?thesis by simp
    qed
  qed
qed

lemma fileKey_inj: "(fileKey f = fileKey g) = (path f = path g \<and> fsize f = fsize g)"
proof
  assume "fileKey f = fileKey g"
  then have eq: "path f @ 45 # numberToString (fsize f) = path g @ 45 # numberToString (fsize g)"
    by (simp add: fileKey_def str_def)
  have "45 \<notin> set (numberToString (fsize f))" "45 \<notin> set (numberToString (fsize g))"
    using digits_range [of 45] by auto
  with eq have "path f = path g \<and> numberToString (fsize f) = numberToString (fsize g)"
    by (rule append_sep_inj)
  then show "path f = path g \<and> fsize f = fsize g"
    by (auto dest: numberToString_inj)
next
  assume "path f = path g \<and> fsize f = fsize g"
  then show "fileKey f = fileKey g" by (simp add: fileKey_def)
qed

subsection \<open>Deduplication\<close>

lemma find_append:
  "find P (xs @ ys) = (case find P xs of None \<Rightarrow> find P ys | Some x \<Rightarrow> Some x)"
  by (induction xs) auto

lemma addFile_snoc: "foldl addFile st (xs @ [x]) = addFile (foldl addFile st xs) x"
  by simp

lemma dedup_invariant:
  "snd (foldl addFile ([], []) xs) = map fileKey (fst (foldl addFile ([], []) xs))
   \<and> distinct (map fileKey (fst (foldl addFile ([], []) xs)))
   \<and> set (map fileKey (fst (foldl addFile ([], []) xs))) = set (map fileKey xs)
   \<and> (\<forall>f\<in>set (fst (foldl addFile ([], []) xs)). find (\<lambda>g. fileKey g = fileKey f) xs = Some f)"
proof (induction xs rule: rev_induct)
  case Nil
  then show ?case by simp
next
  case (snoc x xs)
  define R where "R = fst (foldl addFile ([], []) xs)"
  define S where "S = snd (foldl addFile ([], []) xs)"
  have st: "foldl addFile ([], []) xs = (R, S)" by (simp add: R_def S_def)
  from snoc have S: "S = map fileKey R" and d: "distinct (map fileKey R)"
    and k: "set (map fileKey R) = set (map fileKey xs)"
    and f: "\<forall>f\<in>set R. find (\<lambda>g. fileKey g = fileKey f) xs = Some f"
    by (simp_all add: R_def S_def)
  show ?case
  proof (cases "fileKey x \<in> set S")
    case True
    then have new: "foldl addFile ([], []) (xs @ [x]) = (R, S)"
      by (simp add: st addFile_def)
    have "\<forall>f\<in>set R. find (\<lambda>g. fileKey g = fileKey f) (xs @ [x]) = Some f"
      using f by (simp add: find_append)
    with True S d k show ?thesis unfolding new by auto
  next
    case False
    then have new: "foldl addFile ([], []) (xs @ [x]) = (R @ [x], S @ [fileKey x])"
      by (simp add: st addFile_def)
    from False S k have nx: "fileKey x \<notin> set (map fileKey xs)" by simp
    then have "\<And>g. g \<in> set xs \<Longrightarrow> fileKey g \<noteq> fileKey x"
      by (metis imageI set_map)
    then have "find (\<lambda>g. fileKey g = fileKey x) xs = None"
      by (simp add: find_None_iff)
    then have "find (\<lambda>g. fileKey g = fileKey x) (xs @ [x]) = Some x"
      by (simp add: find_append)
    moreover have "\<forall>f\<in>set R. find (\<lambda>g. fileKey g = fileKey f) (xs @ [x]) = Some f"
      using f by (simp add: find_append)
    ultimately show ?thesis unfolding new using False S d k by auto
  qed
qed

lemma addFile_seen_mono: "set (snd st) \<subseteq> set (snd (addFile st x)) \<and> fileKey x \<in> set (snd (addFile st x))"
  by (auto simp: addFile_def Let_def)

lemma foldl_addFile_seen:
  "set (snd st) \<union> fileKey ` set xs \<subseteq> set (snd (foldl addFile st xs))"
proof (induction xs rule: rev_induct)
  case Nil
  then show ?case by simp
next
  case (snoc x xs)
  then show ?case using addFile_seen_mono [of "foldl addFile st xs" x] by auto
qed

lemma foldl_addFile_known:
  "fileKey ` set ys \<subseteq> set (snd st) \<Longrightarrow> foldl addFile st ys = st"
  by (induction ys) (auto simp: addFile_def)

lemma harvest_again: "foldl addFile (foldl addFile st xs) xs = foldl addFile st xs"
  using foldl_addFile_seen [of st xs] by (intro foldl_addFile_known) auto

lemma harvestBranches_harvested:
  "fst (harvestBranches env owner repo branches st w)
     = foldl addFile st (harvested env owner repo branches w)"
  by (induction branches arbitrary: st w) (auto split: prod.splits sum.splits)

lemma getAllFilesFromAllBranches_dedup:
  "fst (fst (getAllFilesFromAllBranches env owner repo w))
     = fst (foldl addFile ([], []) (allHarvested env owner repo w))"
proof -
  obtain branches w1 where b: "fetchGitHubBranches env owner repo w = (branches, w1)"
    by (cases "fetchGitHubBranches env owner repo w")
  let ?sorted = "sortBy (branchAfter (localeCompare env)) branches"
  obtain st w2 where h: "harvestBranches env owner repo ?sorted ([], []) w1 = (st, w2)"
    by (cases "harvestBranches env owner repo ?sorted ([], []) w1")
  have "st = foldl addFile ([], []) (harvested env owner repo ?sorted w1)"
    using harvestBranches_harvested [of env owner repo ?sorted "([], [])" w1] h by simp
  then show ?thesis
    by (simp add: getAllFilesFromAllBranches_def allHarvested_def b h Let_def)
qed

lemma distinct_pairs:
  assumes "distinct (map fileKey xs)"
  shows "distinct (map (\<lambda>f. (path f, fsize f)) xs)"
proof -
  from assms have "distinct xs" "inj_on fileKey (set xs)" by (auto simp: distinct_map)
  then have "inj_on (\<lambda>f. (path f, fsize f)) (set xs)"
    by (auto simp: inj_on_def fileKey_inj)
  with \<open>distinct xs\<close> show ?thesis by (simp add: distinct_map)
qed

lemma pairs_of_keys:
  assumes "set (map fileKey xs) = set (map fileKey ys)"
  shows "set (map (\<lambda>f. (path f, fsize f)) xs) = set (map (\<lambda>f. (path f, fsize f)) ys)"
proof -
  have sub: "set (map (\<lambda>f. (path f, fsize f)) a) \<subseteq> set (map (\<lambda>f. (path f, fsize f)) b)"
    if "set (map fileKey a) \<subseteq> set (map fileKey b)" for a b :: "GitHubFile list"
  proof
    fix p assume "p \<in> set (map (\<lambda>f. (path f, fsize f)) a)"
    then obtain f where f: "f \<in> set a" "p = (path f, fsize f)" by auto
    then have "fileKey f \<in> set (map fileKey b)" using that by auto
    then obtain g where g: "g \<in> set b" "fileKey g = fileKey f" by auto
    then have "path g = path f \<and> fsize g = fsize f" by (simp add: fileKey_inj)
    with f have "p = (path g, fsize g)" by simp
    with g(1) show "p \<in> set (map (\<lambda>f. (path f, fsize f)) b)" by (simp add: image_iff) blast
  qed
  from assms sub [of xs ys] sub [of ys xs] show ?thesis by blast
qed

subsection \<open>The example with two branches\<close>

lemma getAllFiles_flat:
  assumes "fetchGitHubContents env owner repo dir ref w = (Inr fs, w1)"
    and "\<forall>f\<in>set fs. ftype f = TFile"
  shows "getAllFiles env owner repo dir (Suc d) ref w = (Inr fs, w1)"
proof -
  have "foldl (\<lambda>st item.
            if ftype item = TFile then (fst st @ [item], snd st)
            else if ftype item = TDir \<and> \<not> shouldSkipDirectory (path item) (f_name item)
            then (case getAllFiles env owner repo (path item) d ref (snd st) of
                    (Inl e, w2) \<Rightarrow> (fst st, w2)
                  | (Inr subFiles, w2) \<Rightarrow> (fst st @ subFiles, w2))
            else st) (acc, w1) fs = (acc @ fs, w1)" for acc
    using assms(2) by (induction fs arbitrary: acc) auto
  from this [of "[]"] assms(1) show ?thesis by simp
qed

lemma twoBranch_contents:
  "fetchGitHubContents twoBranchEnv owner repo dir ref w = (Inr [readme\<lparr>branch := Some ref\<rparr>], w)"
  by (simp add: twoBranchEnv_def simpleEnv_def ok_def)

lemma twoBranch_getAllFiles:
  "getAllFiles twoBranchEnv owner repo dir 4 ref w = (Inr [readme\<lparr>branch := Some ref\<rparr>], w)"
proof -
  have four: "(4::nat) = Suc 3" by simp
  have "getAllFiles twoBranchEnv owner repo dir (Suc 3) ref w = (Inr [readme\<lparr>branch := Some ref\<rparr>], w)"
    by (rule getAllFiles_flat [OF twoBranch_contents]) (simp add: readme_def)
  then show ?thesis by (simp only: four)
qed

lemma twoBranch_sorted:
  "sortBy (branchAfter (localeCompare twoBranchEnv))
     [\<lparr>b_name = str ''dev'', b_sha = str ''d1''\<rparr>, \<lparr>b_name = str ''main'', b_sha = str ''m1''\<rparr>]
   = [\<lparr>b_name = str ''main'', b_sha = str ''m1''\<rparr>, \<lparr>b_name = str ''dev'', b_sha = str ''d1''\<rparr>]"
  by (simp add: sortBy_def branchAfter_def str_def)

lemma twoBranch_branches:
  "fetchGitHubBranches twoBranchEnv owner repo w =
     ([\<lparr>b_name = str ''dev'', b_sha = str ''d1''\<rparr>, \<lparr>b_name = str ''main'', b_sha = str ''m1''\<rparr>], w)"
  by (simp add: fetchGitHubBranches_def twoBranchEnv_def simpleEnv_def ok_def)

lemma twoBranch_result:
  "fst (getAllFilesFromAllBranches twoBranchEnv owner repo w)
     = ([readme\<lparr>branch := Some (str ''main'')\<rparr>], 2)"
proof -
  have same: "fileKey (readme\<lparr>branch := Some (str ''dev'')\<rparr>) = fileKey (readme\<lparr>branch := Some (str ''main'')\<rparr>)"
    by (simp add: fileKey_inj)
  show ?thesis
    by (simp add: getAllFilesFromAllBranches_def twoBranch_branches twoBranch_sorted
        twoBranch_getAllFiles addFile_def same Let_def)
qed

lemma twoBranch_harvested:
  "allHarvested twoBranchEnv owner repo w
     = [readme\<lparr>branch := Some (str ''main'')\<rparr>, readme\<lparr>branch := Some (str ''dev'')\<rparr>]"
  by (simp add: allHarvested_def twoBranch_branches twoBranch_sorted twoBranch_getAllFiles)

text \<open>
  Claim C5. The harvest over all branches keeps, for every pair of path and size met
  on any branch, exactly one file, the first one met (the walk starts with \<open>main\<close> and
  \<open>master\<close>): no two files of the result agree in path and size; the pairs of the result
  are the pairs of all the files met, so that a file with a known path and another size
  is kept as well; every file of the result is the first file met with its path and
  size; harvesting the same files once more changes nothing; and two branches that each
  hold \<open>README.md\<close> of size 120 give one entry (of two branches).
\<close>

theorem harvest_dedup_by_path_and_size:
  "distinct (map (\<lambda>f. (path f, fsize f)) (fst (fst (getAllFilesFromAllBranches env owner repo w))))
   \<and> set (map (\<lambda>f. (path f, fsize f)) (fst (fst (getAllFilesFromAllBranches env owner repo w))))
       = set (map (\<lambda>f. (path f, fsize f)) (allHarvested env owner repo w))
   \<and> (\<forall>f\<in>set (fst (fst (getAllFilesFromAllBranches env owner repo w))).
         find (\<lambda>g. path g = path f \<and> fsize g = fsize f) (allHarvested env owner repo w) = Some f)
   \<and> foldl addFile (foldl addFile st branchFiles) branchFiles = foldl addFile st branchFiles
   \<and> fst (getAllFilesFromAllBranches twoBranchEnv (str ''octo'') (str ''demo'') ())
       = ([readme\<lparr>branch := Some (str ''main'')\<rparr>], 2)"
proof -
  let ?R = "fst (fst (getAllFilesFromAllBranches env owner repo w))"
  let ?H = "allHarvested env owner repo w"
  have R: "?R = fst (foldl addFile ([], []) ?H)"
    by (rule getAllFilesFromAllBranches_dedup)
  note inv = dedup_invariant [of ?H, folded R]
  have "distinct (map (\<lambda>f. (path f, fsize f)) ?R)"
    using inv by (intro distinct_pairs) simp
  moreover have "set (map (\<lambda>f. (path f, fsize f)) ?R) = set (map (\<lambda>f. (path f, fsize f)) ?H)"
    using inv by (intro pairs_of_keys) simp
  moreover have "\<forall>f\<in>set ?R. find (\<lambda>g. path g = path f \<and> fsize g = fsize f) ?H = Some f"
    using inv by (simp add: fileKey_inj)
  ultimately show ?thesis
    using harvest_again [of st branchFiles] twoBranch_result [of "str ''octo''" "str ''demo''" "()"]
    by simp
qed

theorem harvest_dedup_by_path_and_size_witness:
  "readme\<lparr>branch := Some (str ''main'')\<rparr>
      \<in> set (fst (fst (getAllFilesFromAllBranches twoBranchEnv (str ''octo'') (str ''demo'') ())))
   \<and> find (\<lambda>g. path g = path (readme\<lparr>branch := Some (str ''main'')\<rparr>)
               \<and> fsize g = fsize (readme\<lparr>branch := Some (str ''main'')\<rparr>))
        [readme\<lparr>branch := Some (str ''main'')\<rparr>, readme\<lparr>branch := Some (str ''dev'')\<rparr>]
       = Some (readme\<lparr>branch := Some (str ''main'')\<rparr>)
   \<and> allHarvested twoBranchEnv (str ''octo'') (str ''demo'') ()
       = [readme\<lparr>branch := Some (str ''main'')\<rparr>, readme\<lparr>branch := Some (str ''dev'')\<rparr>]"
  using harvest_dedup_by_path_and_size [of twoBranchEnv "str ''octo''" "str ''demo''" "()"]
  by (simp add: twoBranch_harvested)

subsection \<open>Directory contents and the fallback to master\<close>

lemma serverError_main:
  "fetchContents serverErrorEnv (contentsUrl (str ''octo'') (str ''demo'') [] (str ''main'')) ()
     = (Response 500 None, ())"
  by (simp add: serverErrorEnv_def simpleEnv_def)

lemma simpleEnv_contents: "fetchContents (simpleEnv b c) u w = (c u, w)"
  by (simp add: simpleEnv_def)

lemma twoBranch_main: "fetchContents twoBranchEnv u w = (Response 200 (Some (Listing [readme])), w)"
  by (simp add: twoBranchEnv_def simpleEnv_def)

lemma ok_200: "ok 200"
  by (simp add: ok_def)

lemma not_ok_500: "\<not> ok 500"
  by (simp add: ok_def)

text \<open>
  Claim C7, as stated, has the fallback to \<open>master\<close> only after a not-found answer. In
  the source every response that is not ok starts it: when the request for \<open>main\<close> is
  answered with the status 500, the result is the listing of \<open>master\<close>.
\<close>

theorem fallback_on_server_error:
  "fst (fetchContents serverErrorEnv (contentsUrl (str ''octo'') (str ''demo'') [] (str ''main'')) ())
     = Response 500 None
   \<and> fetchGitHubContents serverErrorEnv (str ''octo'') (str ''demo'') [] (str ''main'') ()
     = (Inr [readme\<lparr>branch := Some (str ''master'')\<rparr>], ())"
  by (simp add: serverErrorEnv_def simpleEnv_def ok_def contentsUrl_def str_def)

text \<open>
  Claim C7, amended. What a fetch of directory contents for the branch \<open>main\<close> does
  depends on the outcome of its request as follows. A response whose status is not ok,
  whichever status it is (404, a server error, a rate limit): the result is that of the
  same fetch for \<open>master\<close>, made in the state after the first request. A rejected request:
  the fetch fails, in the state after that one request. An ok response whose body cannot
  be read: the fetch fails, in the state after that one request. An ok response with a
  body: the result is its listing, or its single file, marked with the branch \<open>main\<close>.
\<close>

theorem fallback_on_any_failed_status:
  assumes "fetchContents env (contentsUrl owner repo dir (str ''main'')) w = (r, w1)"
  shows "(\<forall>status body. r = Response status body \<and> \<not> ok status \<longrightarrow>
            fetchGitHubContents env owner repo dir (str ''main'') w
              = fetchGitHubContents env owner repo dir (str ''master'') w1)
       \<and> (r = Rejected \<longrightarrow>
            fetchGitHubContents env owner repo dir (str ''main'') w = (Inl FetchFailed, w1))
       \<and> (\<forall>status. r = Response status None \<and> ok status \<longrightarrow>
            fetchGitHubContents env owner repo dir (str ''main'') w = (Inl FetchFailed, w1))
       \<and> (\<forall>status fs. r = Response status (Some (Listing fs)) \<and> ok status \<longrightarrow>
            fetchGitHubContents env owner repo dir (str ''main'') w
              = (Inr (map (\<lambda>file. file\<lparr>branch := Some (str ''main'')\<rparr>) fs), w1))
       \<and> (\<forall>status f. r = Response status (Some (Single f)) \<and> ok status \<longrightarrow>
            fetchGitHubContents env owner repo dir (str ''main'') w
              = (Inr [f\<lparr>branch := Some (str ''main'')\<rparr>], w1))"
  using assms by (auto simp: fetchGitHubContents.simps [of env owner repo dir "str ''main''" w])

theorem fallback_on_any_failed_status_witness:
  "fetchContents serverErrorEnv (contentsUrl (str ''octo'') (str ''demo'') [] (str ''main'')) ()
     = (Response 500 None, ())
   \<and> \<not> ok 500
   \<and> fetchGitHubContents serverErrorEnv (str ''octo'') (str ''demo'') [] (str ''main'') ()
     = fetchGitHubContents serverErrorEnv (str ''octo'') (str ''demo'') [] (str ''master'') ()
   \<and> fetchContents (simpleEnv Rejected (\<lambda>url. Rejected))
        (contentsUrl (str ''octo'') (str ''demo'') [] (str ''main'')) () = (Rejected, ())
   \<and> fetchGitHubContents (simpleEnv Rejected (\<lambda>url. Rejected)) (str ''octo'') (str ''demo'') []
        (str ''main'') () = (Inl FetchFailed, ())
   \<and> fetchContents (simpleEnv Rejected (\<lambda>url. Response 200 None))
        (contentsUrl (str ''octo'') (str ''demo'') [] (str ''main'')) () = (Response 200 None, ())
   \<and> ok 200
   \<and> fetchGitHubContents (simpleEnv Rejected (\<lambda>url. Response 200 None)) (str ''octo'') (str ''demo'') []
        (str ''main'') () = (Inl FetchFailed, ())
   \<and> fetchContents twoBranchEnv (contentsUrl (str ''octo'') (str ''demo'') [] (str ''main'')) ()
        = (Response 200 (Some (Listing [readme])), ())
   \<and> fetchGitHubContents twoBranchEnv (str ''octo'') (str ''demo'') [] (str ''main'') ()
        = (Inr [readme\<lparr>branch := Some (str ''main'')\<rparr>], ())
   \<and> fetchContents (simpleEnv Rejected (\<lambda>url. Response 200 (Some (Single readme))))
        (contentsUrl (str ''octo'') (str ''demo'') [] (str ''main'')) ()
        = (Response 200 (Some (Single readme)), ())
   \<and> fetchGitHubContents (simpleEnv Rejected (\<lambda>url. Response 200 (Some (Single readme))))
        (str ''octo'') (str ''demo'') [] (str ''main'') ()
        = (Inr [readme\<lparr>branch := Some (str ''main'')\<rparr>], ())"
proof -
  note a = fallback_on_any_failed_status [OF serverError_main]
  note b = fallback_on_any_failed_status [OF simpleEnv_contents [of Rejected "\<lambda>url. Rejected"
        "contentsUrl (str ''octo'') (str ''demo'') [] (str ''main'')" "()"]]
  note c = fallback_on_any_failed_status [OF simpleEnv_contents [of Rejected "\<lambda>url. Response 200 None"
        "contentsUrl (str ''octo'') (str ''demo'') [] (str ''main'')" "()"]]
  note d = fallback_on_any_failed_status [OF twoBranch_main
        [of "contentsUrl (str ''octo'') (str ''demo'') [] (str ''main'')" "()"]]
  note e = fallback_on_any_failed_status [OF simpleEnv_contents [of Rejected "\<lambda>url. Response 200 (Some (Single readme))"
        "contentsUrl (str ''octo'') (str ''demo'') [] (str ''main'')" "()"]]
  have 1: "fetchGitHubContents serverErrorEnv (str ''octo'') (str ''demo'') [] (str ''main'') ()
     = fetchGitHubContents serverErrorEnv (str ''octo'') (str ''demo'') [] (str ''master'') ()"
    using a not_ok_500 by blast
  have 2: "fetchGitHubContents (simpleEnv Rejected (\<lambda>url. Rejected)) (str ''octo'') (str ''demo'') []
        (str ''main'') () = (Inl FetchFailed, ())"
    using b by blast
  have 3: "fetchGitHubContents (simpleEnv Rejected (\<lambda>url. Response 200 None)) (str ''octo'') (str ''demo'') []
        (str ''main'') () = (Inl FetchFailed, ())"
    using c ok_200 by blast
  have 4: "fetchGitHubContents twoBranchEnv (str ''octo'') (str ''demo'') [] (str ''main'') ()
        = (Inr (map (\<lambda>file. file\<lparr>branch := Some (str ''main'')\<rparr>) [readme]), ())"
    using d ok_200 by blast
  have 5: "fetchGitHubContents (simpleEnv Rejected (\<lambda>url. Response 200 (Some (Single readme))))
        (str ''octo'') (str ''demo'') [] (str ''main'') ()
        = (Inr [readme\<lparr>branch := Some (str ''main'')\<rparr>], ())"
    using e ok_200 by blast
  from 4 have 4: "fetchGitHubContents twoBranchEnv (str ''octo'') (str ''demo'') [] (str ''main'') ()
        = (Inr [readme\<lparr>branch := Some (str ''main'')\<rparr>], ())"
    by simp
  show ?thesis
    by (intro conjI serverError_main not_ok_500 ok_200 1 2 3 4 5 simpleEnv_contents twoBranch_main)
qed
subsection \<open>Failures of a run\<close>

lemma noBranchList_harvest:
  assumes "noBranchList (fst (fetchBranches env (branchesUrl owner repo) w))"
  shows "fst (getAllFilesFromAllBranches env owner repo w) = ([], 0)"
proof -
  from assms have "fst (fetchGitHubBranches env owner repo w) = []"
    by (auto simp: fetchGitHubBranches_def noBranchList_def split: prod.splits response.splits option.splits)
  then obtain w1 where "fetchGitHubBranches env owner repo w = ([], w1)"
    by (cases "fetchGitHubBranches env owner repo w") auto
  then show ?thesis
    by (simp add: getAllFilesFromAllBranches_def sortBy_def)
qed

lemma branchListFails_run:
  assumes f: "branchListFails env repoUrl w"
  shows "fst (analyzeGitHubRepository env repoUrl includeCommitHistory w) = Inl NoAnalyzeableFiles"
proof -
  from f obtain owner0 repo0 where p: "parseRepositoryUrl repoUrl = Some (owner0, repo0)"
    by (auto simp: branchListFails_def split: option.splits)
  obtain owner' repo' forked original w1 where
    r: "resolveFork env owner0 repo0 w = ((owner', repo', forked, original), w1)"
    by (metis prod.exhaust)
  from f p r have "noBranchList (fst (fetchBranches env (branchesUrl owner' repo') w1))"
    by (simp add: branchListFails_def)
  then have "fst (getAllFilesFromAllBranches env owner' repo' w1) = ([], 0)"
    by (rule noBranchList_harvest)
  then obtain w2 where h: "getAllFilesFromAllBranches env owner' repo' w1 = (([], 0), w2)"
    by (cases "getAllFilesFromAllBranches env owner' repo' w1") auto
  show ?thesis
    by (simp add: analyzeGitHubRepository_def p r h split: prod.splits)
qed

lemma parse_demo:
  "parseRepositoryUrl (str ''https://github.com/octo/demo'') = Some (str ''octo'', str ''demo'')"
  by (simp add: parseRepositoryUrl_def repositoryUrlPattern_def regex_eval str_def)

lemma parse_bad: "parseRepositoryUrl (str ''octo/demo'') = None"
  by (simp add: parseRepositoryUrl_def repositoryUrlPattern_def regex_eval str_def)

lemma resolve_simple:
  "resolveFork (simpleEnv b c) owner repo w = ((owner, repo, False, None), w)"
  by (simp add: resolveFork_def fetchGitHubRepo_def simpleEnv_def ok_def)

lemma analyzeable_readme: "analyzeable (readme\<lparr>branch := r\<rparr>)"
  by (simp add: analyzeable_def readme_def shouldAnalyzeFile_def extension_def toLowerCase_def
      textExtensions_def excludePatterns_def mainOrIndex_def appFile_def scriptExt_def truthy_def
      startsWith_def regex_eval str_def)

lemma resolve_noBranches:
  "resolveFork noBranchesEnv owner repo w = ((owner, repo, False, None), w)"
  unfolding noBranchesEnv_def by (rule resolve_simple)

lemma resolve_twoBranch:
  "resolveFork twoBranchEnv owner repo w = ((owner, repo, False, None), w)"
  unfolding twoBranchEnv_def by (rule resolve_simple)

lemma noBranches_rejected: "noBranchList (fst (fetchBranches noBranchesEnv u w))"
  by (simp add: noBranchesEnv_def simpleEnv_def noBranchList_def)

lemma noBranches_fails:
  "branchListFails noBranchesEnv (str ''https://github.com/octo/demo'') ()"
  by (simp add: branchListFails_def parse_demo resolve_noBranches noBranches_rejected)

lemma noBranches_harvested:
  "harvestedFiles noBranchesEnv (str ''https://github.com/octo/demo'') () = Some []"
  by (simp add: harvestedFiles_def parse_demo resolve_noBranches
      noBranchList_harvest [OF noBranches_rejected])

lemma twoBranch_harvestedFiles:
  "harvestedFiles twoBranchEnv (str ''https://github.com/octo/demo'') ()
     = Some [readme\<lparr>branch := Some (str ''main'')\<rparr>]"
  by (simp add: harvestedFiles_def parse_demo resolve_twoBranch twoBranch_result)

text \<open>
  Claim C8, as stated, has the run complete with a report when the branch list cannot
  be fetched. In the source the harvest then has no file, and the run throws the error
  for a repository without analyzeable files.
\<close>

theorem branch_list_failure_is_fatal:
  "noBranchList (fst (fetchBranches noBranchesEnv (branchesUrl (str ''octo'') (str ''demo'')) ()))
   \<and> fst (analyzeGitHubRepository noBranchesEnv (str ''https://github.com/octo/demo'') True ())
       = Inl NoAnalyzeableFiles"
  using branchListFails_run [OF noBranches_fails, of True] noBranches_rejected
  by simp

text \<open>
  Claim C8, amended. When the request for the branch list fails (it is rejected, has a
  status that is not ok, or a body that cannot be read), the harvest does not fail: it
  returns no file and counts zero branches. The run then ends with the error
  \<open>No analyzeable code files found\<close> and produces no report.
\<close>

theorem branch_list_failure:
  "(noBranchList (fst (fetchBranches env (branchesUrl owner repo) w)) \<longrightarrow>
      fst (getAllFilesFromAllBranches env owner repo w) = ([], 0))
   \<and> (branchListFails env repoUrl w \<longrightarrow>
      fst (analyzeGitHubRepository env repoUrl includeCommitHistory w) = Inl NoAnalyzeableFiles)"
  by (simp add: noBranchList_harvest branchListFails_run)

theorem branch_list_failure_witness:
  "noBranchList (fst (fetchBranches noBranchesEnv (branchesUrl (str ''octo'') (str ''demo'')) ()))
   \<and> fst (getAllFilesFromAllBranches noBranchesEnv (str ''octo'') (str ''demo'') ()) = ([], 0)
   \<and> branchListFails noBranchesEnv (str ''https://github.com/octo/demo'') ()
   \<and> fst (analyzeGitHubRepository noBranchesEnv (str ''https://github.com/octo/demo'') False ())
       = Inl NoAnalyzeableFiles"
  using branch_list_failure [of noBranchesEnv "str ''octo''" "str ''demo''" "()" "str ''https://github.com/octo/demo''" False]
    noBranches_rejected noBranches_fails
  by simp

lemma brokenRoot_contents:
  "fetchGitHubContents brokenRootEnv owner repo dir ref w = (Inl (ApiError 500), w)"
  by (simp add: brokenRootEnv_def simpleEnv_def ok_def str_def)

lemma getAllFiles_fail:
  assumes "fetchGitHubContents env owner repo dir ref w = (Inl e, w1)"
  shows "getAllFiles env owner repo dir (Suc d) ref w = (Inl e, w1)"
  using assms by simp

lemma brokenRoot_getAllFiles:
  "getAllFiles brokenRootEnv owner repo dir 4 ref w = (Inl (ApiError 500), w)"
proof -
  have four: "(4::nat) = Suc 3" by simp
  show ?thesis by (subst four) (rule getAllFiles_fail [OF brokenRoot_contents])
qed
lemma brokenRoot_harvest:
  "fst (getAllFilesFromAllBranches brokenRootEnv owner repo w) = ([], 1)"
proof -
  have "fetchGitHubBranches brokenRootEnv owner repo w
      = ([\<lparr>b_name = str ''main'', b_sha = str ''m1''\<rparr>], w)"
    by (simp add: fetchGitHubBranches_def brokenRootEnv_def simpleEnv_def ok_def)
  then show ?thesis
    by (simp add: getAllFilesFromAllBranches_def sortBy_def brokenRoot_getAllFiles)
qed

lemma resolve_brokenRoot:
  "resolveFork brokenRootEnv owner repo w = ((owner, repo, False, None), w)"
  unfolding brokenRootEnv_def by (rule resolve_simple)

lemma brokenRoot_harvestedFiles:
  "harvestedFiles brokenRootEnv (str ''https://github.com/octo/demo'') () = Some []"
  by (simp add: harvestedFiles_def parse_demo resolve_brokenRoot brokenRoot_harvest)

lemma resolve_rateLimited:
  "resolveFork rateLimitedEnv owner repo w = ((owner, repo, False, None), w)"
  unfolding rateLimitedEnv_def by (rule resolve_simple)

lemma rateLimited_noList: "noBranchList (fst (fetchBranches rateLimitedEnv u w))"
  by (simp add: rateLimitedEnv_def simpleEnv_def noBranchList_def ok_def)

lemma rateLimited_fails:
  "branchListFails rateLimitedEnv (str ''https://github.com/octo/demo'') ()"
  by (simp add: branchListFails_def parse_demo resolve_rateLimited rateLimited_noList)

lemma no_analyzeable_run:
  assumes "harvestedFiles env repoUrl w = Some fs" "filter analyzeable fs = []"
  shows "fst (analyzeGitHubRepository env repoUrl includeCommitHistory w) = Inl NoAnalyzeableFiles"
proof -
  from assms(1) obtain owner0 repo0 where p: "parseRepositoryUrl repoUrl = Some (owner0, repo0)"
    by (auto simp: harvestedFiles_def split: option.splits)
  obtain owner' repo' forked original w1 where
    r: "resolveFork env owner0 repo0 w = ((owner', repo', forked, original), w1)"
    by (metis prod.exhaust)
  obtain allFiles branchCount w2 where
    h: "getAllFilesFromAllBranches env owner' repo' w1 = ((allFiles, branchCount), w2)"
    by (metis prod.exhaust)
  from assms(1) p r h have "fs = allFiles" by (simp add: harvestedFiles_def)
  with assms(2) show ?thesis
    by (simp add: analyzeGitHubRepository_def p r h split: prod.splits)
qed

text \<open>
  Claim C3, as stated, counts a failure of the branch listing and of a directory request
  among the failures after which the run still produces a report. In the source both can
  leave the run without a file to analyze, and then it throws: so it does when the
  branch list is answered with the status 403, and when the only branch has a root
  directory that answers with the status 500.
\<close>

theorem listing_failures_end_the_run:
  "fst (fetchBranches rateLimitedEnv (branchesUrl (str ''octo'') (str ''demo'')) ()) = Response 403 None
   \<and> fst (analyzeGitHubRepository rateLimitedEnv (str ''https://github.com/octo/demo'') True ())
       = Inl NoAnalyzeableFiles
   \<and> fst (fetchBranches brokenRootEnv (branchesUrl (str ''octo'') (str ''demo'')) ())
       = Response 200 (Some [\<lparr>b_name = str ''main'', b_sha = str ''m1''\<rparr>])
   \<and> fst (getAllFiles brokenRootEnv (str ''octo'') (str ''demo'') [] 4 (str ''main'') ())
       = Inl (ApiError 500)
   \<and> fst (analyzeGitHubRepository brokenRootEnv (str ''https://github.com/octo/demo'') True ())
       = Inl NoAnalyzeableFiles"
  using branchListFails_run [OF rateLimited_fails, of True]
    no_analyzeable_run [OF brokenRoot_harvestedFiles, of True]
  by (simp add: brokenRoot_getAllFiles) (simp add: rateLimitedEnv_def brokenRootEnv_def simpleEnv_def)

text \<open>
  Claim C3, amended. A run ends with an error in exactly two cases: the URL does not
  name a repository (the error for an invalid URL), or none of the harvested files passes
  the filter for analyzeable files (the error for no analyzeable files). Whenever the URL
  names a repository and a harvested file passes the filter, the run produces a report,
  whatever the requests for the repository, the branches, the directories, the files and
  the commits answer and whatever the classifier does. A failure of the branch listing is
  not such a case: it leaves no harvested file, and the run ends with the second error.
\<close>

theorem run_fails_in_exactly_two_cases:
  "(parseRepositoryUrl repoUrl = None \<longrightarrow>
      fst (analyzeGitHubRepository env repoUrl includeCommitHistory w) = Inl InvalidUrl)
   \<and> (\<forall>fs. harvestedFiles env repoUrl w = Some fs \<and> filter analyzeable fs = [] \<longrightarrow>
      fst (analyzeGitHubRepository env repoUrl includeCommitHistory w) = Inl NoAnalyzeableFiles)
   \<and> (\<forall>fs. harvestedFiles env repoUrl w = Some fs \<and> filter analyzeable fs \<noteq> [] \<longrightarrow>
      (\<exists>report. fst (analyzeGitHubRepository env repoUrl includeCommitHistory w) = Inr report))
   \<and> ((\<exists>e. fst (analyzeGitHubRepository env repoUrl includeCommitHistory w) = Inl e)
       = (parseRepositoryUrl repoUrl = None
          \<or> (\<exists>fs. harvestedFiles env repoUrl w = Some fs \<and> filter analyzeable fs = [])))
   \<and> (branchListFails env repoUrl w \<longrightarrow>
      harvestedFiles env repoUrl w = Some []
      \<and> fst (analyzeGitHubRepository env repoUrl includeCommitHistory w) = Inl NoAnalyzeableFiles)"
proof -
  have five: "harvestedFiles env repoUrl w = Some []" if f: "branchListFails env repoUrl w"
  proof -
    from f obtain owner0 repo0 where p: "parseRepositoryUrl repoUrl = Some (owner0, repo0)"
      by (auto simp: branchListFails_def split: option.splits)
    obtain owner' repo' forked original w1 where
      r: "resolveFork env owner0 repo0 w = ((owner', repo', forked, original), w1)"
      by (metis prod.exhaust)
    from f p r have "noBranchList (fst (fetchBranches env (branchesUrl owner' repo') w1))"
      by (simp add: branchListFails_def)
    then have "fst (getAllFilesFromAllBranches env owner' repo' w1) = ([], 0)"
      by (rule noBranchList_harvest)
    then show ?thesis by (simp add: harvestedFiles_def p r)
  qed
  show ?thesis
  proof (cases "parseRepositoryUrl repoUrl")
    case None
    then show ?thesis
      by (simp add: analyzeGitHubRepository_def harvestedFiles_def branchListFails_def)
  next
    case (Some pr)
    obtain owner0 repo0 where pr: "pr = (owner0, repo0)" by (cases pr)
    obtain owner' repo' forked original w1 where
      r: "resolveFork env owner0 repo0 w = ((owner', repo', forked, original), w1)"
      by (metis prod.exhaust)
    obtain allFiles branchCount w2 where
      h: "getAllFilesFromAllBranches env owner' repo' w1 = ((allFiles, branchCount), w2)"
      by (metis prod.exhaust)
    have hf: "harvestedFiles env repoUrl w = Some allFiles"
      using Some pr r h by (simp add: harvestedFiles_def)
    show ?thesis
    proof (cases "filter analyzeable allFiles = []")
      case True
      then show ?thesis using Some pr r h hf five
        by (simp add: analyzeGitHubRepository_def split: prod.splits)
    next
      case False
      then have "\<exists>report. fst (analyzeGitHubRepository env repoUrl includeCommitHistory w) = Inr report"
        using Some pr r h
        by (simp add: analyzeGitHubRepository_def Let_def split: prod.splits)
      moreover have "\<not> branchListFails env repoUrl w"
        using five hf False by auto
      ultimately show ?thesis using Some False hf by auto
    qed
  qed
qed

theorem run_fails_in_exactly_two_cases_witness:
  "parseRepositoryUrl (str ''octo/demo'') = None
   \<and> fst (analyzeGitHubRepository twoBranchEnv (str ''octo/demo'') True ()) = Inl InvalidUrl
   \<and> harvestedFiles brokenRootEnv (str ''https://github.com/octo/demo'') () = Some []
   \<and> filter analyzeable [] = []
   \<and> fst (analyzeGitHubRepository brokenRootEnv (str ''https://github.com/octo/demo'') True ())
       = Inl NoAnalyzeableFiles
   \<and> harvestedFiles twoBranchEnv (str ''https://github.com/octo/demo'') ()
       = Some [readme\<lparr>branch := Some (str ''main'')\<rparr>]
   \<and> filter analyzeable [readme\<lparr>branch := Some (str ''main'')\<rparr>] \<noteq> []
   \<and> (\<exists>report. fst (analyzeGitHubRepository twoBranchEnv (str ''https://github.com/octo/demo'') True ())
          = Inr report)
   \<and> branchListFails noBranchesEnv (str ''https://github.com/octo/demo'') ()
   \<and> harvestedFiles noBranchesEnv (str ''https://github.com/octo/demo'') () = Some []
   \<and> fst (analyzeGitHubRepository noBranchesEnv (str ''https://github.com/octo/demo'') True ())
       = Inl NoAnalyzeableFiles"
  using run_fails_in_exactly_two_cases [of "str ''octo/demo''" twoBranchEnv True "()"]
    run_fails_in_exactly_two_cases [of "str ''https://github.com/octo/demo''" brokenRootEnv True "()"]
    run_fails_in_exactly_two_cases [of "str ''https://github.com/octo/demo''" twoBranchEnv True "()"]
    run_fails_in_exactly_two_cases [of "str ''https://github.com/octo/demo''" noBranchesEnv True "()"]
  by (simp add: parse_bad brokenRoot_harvestedFiles twoBranch_harvestedFiles analyzeable_readme
      noBranches_fails)

end
